theory Spec2Isabelle
  imports Complex_Main "HOL-Library.Sublist" "HOL-Library.Log_Nat"
begin

section \<open>Values of the routing engine\<close>

text \<open>
  Rule conditions are stored as JSONB and the document context is a Python dictionary, so
  both hold arbitrary JSON-like Python values. A dictionary is an association list in
  insertion order (Python dictionaries have unique keys; a lookup reads the first binding).
  A float is represented by the rational number it denotes; only finite floats occur
  (JSON has no NaN or infinity). A string is the UTF-8 byte string of the Python string:
  equality, the substring test and the removal of an ASCII substring read the same on
  both. Python's \<open>str.lower\<close> follows the Unicode tables; it is a parameter \<open>lower\<close> of
  the evaluator and of everything that calls it, so that every theorem holds for it
  whatever it does. \<open>ascii_lower\<close> is \<open>str.lower\<close> on ASCII text, for the examples,
  which are ASCII.
\<close>

datatype pyval =
    PNone
  | PBool bool
  | PInt int
  | PFloat rat
  | PStr string
  | PList "pyval list"
  | PDict "(string \<times> pyval) list"

datatype py_error = AttributeError | TypeError

type_synonym py_dict = "(string \<times> pyval) list"

definition ascii_lower_char :: "char \<Rightarrow> char" where
  "ascii_lower_char c =
     (let n = (of_char c :: nat) in if 65 \<le> n \<and> n \<le> 90 then char_of (n + 32) else c)"

definition ascii_lower :: "string \<Rightarrow> string" where
  "ascii_lower s = map ascii_lower_char s"

text \<open>\<open>isinstance(v, (int, float))\<close>: in Python \<open>bool\<close> is a subclass of \<open>int\<close>, with
  \<open>True == 1\<close> and \<open>False == 0\<close>. The result is the numeric value when \<open>v\<close> is a number.\<close>

fun num_val :: "pyval \<Rightarrow> rat option" where
  "num_val (PBool b) = Some (if b then 1 else 0)"
| "num_val (PInt i) = Some (of_int i)"
| "num_val (PFloat q) = Some q"
| "num_val _ = None"

text \<open>\<open>v.lower()\<close>: only a string has the method, any other value raises AttributeError.\<close>

fun py_lower :: "(string \<Rightarrow> string) \<Rightarrow> pyval \<Rightarrow> py_error + string" where
  "py_lower lower (PStr s) = Inr (lower s)"
| "py_lower lower _ = Inl AttributeError"

section \<open>Condition evaluator\<close>

text \<open>
  The result of checking one constraint inside the loop of \<open>_evaluate_rule_condition\<close>:
  \<open>Inr True\<close> when control falls through to the next constraint, \<open>Inr False\<close> when the
  code executes \<open>return False\<close>, and \<open>Inl e\<close> when it raises \<open>e\<close>.
  \<open>and_then\<close> sequences two statements: the second runs only when the first fell through.
\<close>

definition and_then :: "py_error + bool \<Rightarrow> py_error + bool \<Rightarrow> py_error + bool" where
  "and_then r k = (case r of Inl e \<Rightarrow> Inl e | Inr b \<Rightarrow> if b then k else Inr False)"

text \<open>The loop \<open>for item in context_value\<close> of the plain-string branch (lines 103--109):
  the value of \<open>found\<close> when the loop ends.\<close>

fun found_in_list :: "(string \<Rightarrow> string) \<Rightarrow> string \<Rightarrow> pyval list \<Rightarrow> bool" where
  "found_in_list lower expected [] = False"
| "found_in_list lower expected (item # items) =
     (case item of
        PStr s \<Rightarrow> if sublist (lower expected) (lower s) then True
                  else found_in_list lower expected items
      | _ \<Rightarrow> found_in_list lower expected items)"

text \<open>The plain-string branch (lines 96--111).\<close>

definition check_string :: "(string \<Rightarrow> string) \<Rightarrow> string \<Rightarrow> pyval \<Rightarrow> py_error + bool" where
  "check_string lower expected context_value =
     (case context_value of
        PStr s \<Rightarrow> Inr (sublist (lower expected) (lower s))
      | PList items \<Rightarrow> Inr (found_in_list lower expected items)
      | _ \<Rightarrow> Inr False)"

text \<open>The number branch (lines 113--119); \<open>expected\<close> is the numeric value of the
  expected number.\<close>

definition check_number :: "rat \<Rightarrow> pyval \<Rightarrow> py_error + bool" where
  "check_number expected context_value =
     (case num_val context_value of
        Some x \<Rightarrow> Inr (x = expected)
      | None \<Rightarrow> Inr False)"

text \<open>
  One numeric test of the nested branch, for example line 124:
  \<open>isinstance(context_value, (int, float)) and context_value > expected_value["gt"]\<close>.
  The conjunction short-circuits, so a non-numeric context value gives False without
  touching the bound; comparing a number with a bound that is not a number raises
  TypeError.
\<close>

definition compare_bound ::
  "(rat \<Rightarrow> rat \<Rightarrow> bool) \<Rightarrow> pyval \<Rightarrow> pyval \<Rightarrow> py_error + bool" where
  "compare_bound rel context_value bound =
     (case num_val context_value of
        None \<Rightarrow> Inr False
      | Some x \<Rightarrow> (case num_val bound of
                    None \<Rightarrow> Inl TypeError
                  | Some y \<Rightarrow> Inr (rel x y)))"

text \<open>\<open>if "gt" in expected_value: if not (...): return False\<close>.\<close>

definition check_bound ::
  "string \<Rightarrow> (rat \<Rightarrow> rat \<Rightarrow> bool) \<Rightarrow> py_dict \<Rightarrow> pyval \<Rightarrow> py_error + bool" where
  "check_bound key rel expected context_value =
     (case map_of expected key of
        None \<Rightarrow> Inr True
      | Some bound \<Rightarrow> compare_bound rel context_value bound)"

text \<open>The loop of lines 140--146 for \<open>contains\<close>: \<open>expected_value["contains"].lower()\<close>
  is evaluated once for every string item that is reached, and raises when the bound is
  not a string.\<close>

fun contains_in_list :: "(string \<Rightarrow> string) \<Rightarrow> pyval \<Rightarrow> pyval list \<Rightarrow> py_error + bool" where
  "contains_in_list lower bound [] = Inr False"
| "contains_in_list lower bound (item # items) =
     (case item of
        PStr s \<Rightarrow> (case py_lower lower bound of
                    Inl e \<Rightarrow> Inl e
                  | Inr b \<Rightarrow> if sublist b (lower s) then Inr True
                            else contains_in_list lower bound items)
      | _ \<Rightarrow> contains_in_list lower bound items)"

text \<open>Lines 135--146. There is no \<open>else\<close> branch: a context value that is neither a
  string nor a list falls through.\<close>

definition check_contains :: "(string \<Rightarrow> string) \<Rightarrow> py_dict \<Rightarrow> pyval \<Rightarrow> py_error + bool" where
  "check_contains lower expected context_value =
     (case map_of expected ''contains'' of
        None \<Rightarrow> Inr True
      | Some bound \<Rightarrow>
          (case context_value of
             PStr s \<Rightarrow> (case py_lower lower bound of
                         Inl e \<Rightarrow> Inl e
                       | Inr b \<Rightarrow> Inr (sublist b (lower s)))
           | PList items \<Rightarrow> contains_in_list lower bound items
           | _ \<Rightarrow> Inr True))"

text \<open>The nested branch (lines 121--146): five tests in sequence.\<close>

definition check_advanced :: "(string \<Rightarrow> string) \<Rightarrow> py_dict \<Rightarrow> pyval \<Rightarrow> py_error + bool" where
  "check_advanced lower expected context_value =
     and_then (check_bound ''gt'' (\<lambda>x y. y < x) expected context_value)
    (and_then (check_bound ''lt'' (\<lambda>x y. x < y) expected context_value)
    (and_then (check_bound ''gte'' (\<lambda>x y. y \<le> x) expected context_value)
    (and_then (check_bound ''lte'' (\<lambda>x y. x \<le> y) expected context_value)
              (check_contains lower expected context_value))))"

text \<open>The \<open>if\<close>/\<open>elif\<close> chain on the type of the expected value (lines 96, 113, 121).
  An expected value of any other type (null, list) matches no branch.\<close>

fun check_constraint :: "(string \<Rightarrow> string) \<Rightarrow> pyval \<Rightarrow> pyval \<Rightarrow> py_error + bool" where
  "check_constraint lower (PStr e) v = check_string lower e v"
| "check_constraint lower (PBool b) v = check_number (if b then 1 else 0) v"
| "check_constraint lower (PInt i) v = check_number (of_int i) v"
| "check_constraint lower (PFloat q) v = check_number q v"
| "check_constraint lower (PDict d) v = check_advanced lower d v"
| "check_constraint lower _ v = Inr True"

text \<open>The loop over \<open>condition.items()\<close> (lines 90--148).\<close>

fun evaluate_items :: "(string \<Rightarrow> string) \<Rightarrow> py_dict \<Rightarrow> py_dict \<Rightarrow> py_error + bool" where
  "evaluate_items lower [] context = Inr True"
| "evaluate_items lower ((key, expected_value) # rest) context =
     (case map_of context key of
        None \<Rightarrow> evaluate_items lower rest context
      | Some context_value \<Rightarrow>
          and_then (check_constraint lower expected_value context_value)
                   (evaluate_items lower rest context))"

text \<open>\<open>except Exception: return False\<close> (lines 150--152).\<close>

definition except_false :: "py_error + bool \<Rightarrow> bool" where
  "except_false r = (case r of Inl e \<Rightarrow> False | Inr b \<Rightarrow> b)"

text \<open>\<open>_evaluate_rule_condition\<close> (lines 86--152); \<open>condition.items()\<close> raises
  AttributeError when the condition is not a dictionary.\<close>

definition evaluate_rule_condition :: "(string \<Rightarrow> string) \<Rightarrow> pyval \<Rightarrow> py_dict \<Rightarrow> bool" where
  "evaluate_rule_condition lower condition context =
     (case condition of
        PDict items \<Rightarrow> except_false (evaluate_items lower items context)
      | _ \<Rightarrow> except_false (Inl AttributeError))"

section \<open>Python helpers\<close>

text \<open>Truth value of a Python object, as tested by \<open>if x\<close> and \<open>x and y\<close>.\<close>

fun py_truthy :: "pyval \<Rightarrow> bool" where
  "py_truthy PNone = False"
| "py_truthy (PBool b) = b"
| "py_truthy (PInt i) = (i \<noteq> 0)"
| "py_truthy (PFloat q) = (q \<noteq> 0)"
| "py_truthy (PStr s) = (s \<noteq> [])"
| "py_truthy (PList xs) = (xs \<noteq> [])"
| "py_truthy (PDict d) = (d \<noteq> [])"

text \<open>
  Python's \<open>==\<close> on JSON-like values: numbers (booleans included) compare by value,
  lists element by element, dictionaries by their bindings whatever the order.
\<close>

fun py_eq :: "pyval \<Rightarrow> pyval \<Rightarrow> bool"
  and py_eq_list :: "pyval list \<Rightarrow> pyval list \<Rightarrow> bool"
  and py_eq_items :: "(string \<times> pyval) list \<Rightarrow> (string \<times> pyval) list \<Rightarrow> bool"
where
  "py_eq PNone w = (w = PNone)"
| "py_eq (PStr s) w = (w = PStr s)"
| "py_eq (PBool b) w = (num_val w = Some (if b then 1 else 0))"
| "py_eq (PInt i) w = (num_val w = Some (of_int i))"
| "py_eq (PFloat q) w = (num_val w = Some q)"
| "py_eq (PList xs) w = (case w of PList ys \<Rightarrow> py_eq_list xs ys | _ \<Rightarrow> False)"
| "py_eq (PDict d) w =
     (case w of PDict d' \<Rightarrow> length d = length d' \<and> py_eq_items d d' | _ \<Rightarrow> False)"
| "py_eq_list [] ys = (ys = [])"
| "py_eq_list (x # xs) ys =
     (case ys of [] \<Rightarrow> False | y # ys' \<Rightarrow> py_eq x y \<and> py_eq_list xs ys')"
| "py_eq_items [] d' = True"
| "py_eq_items ((k, v) # rest) d' =
     (case map_of d' k of None \<Rightarrow> False | Some v' \<Rightarrow> py_eq v v' \<and> py_eq_items rest d')"

text \<open>\<open>x in xs\<close> for a list \<open>xs\<close>.\<close>

definition py_in_list :: "pyval \<Rightarrow> pyval list \<Rightarrow> bool" where
  "py_in_list x xs = list_ex (py_eq x) xs"

text \<open>\<open>s.replace(old, '')\<close>: every occurrence of \<open>old\<close> is removed, scanning from the
  left and continuing after each occurrence.\<close>

function str_remove :: "string \<Rightarrow> string \<Rightarrow> string" where
  "str_remove old s =
     (if old = [] \<or> s = [] then s
      else if prefix old s then str_remove old (drop (length old) s)
      else hd s # str_remove old (tl s))"
  by pat_completeness auto
termination
  by (relation "measure (\<lambda>(old, s). length s)") auto

declare str_remove.simps [simp del]

section \<open>Double-precision arithmetic\<close>

text \<open>
  Python floats are IEEE 754 doubles. A finite double is represented by the rational it
  denotes, and every arithmetic operation rounds the exact result to the nearest double,
  ties to even: 53 significant bits, with the exponent of the last place no smaller than
  \<open>-1074\<close> (subnormal numbers). The quantities of this program stay far below the
  largest double, so overflow to infinity does not arise.
\<close>

definition round_half_even :: "rat \<Rightarrow> int" where
  "round_half_even q =
     (let f = \<lfloor>q\<rfloor>; r = q - of_int f
      in if r < 1 / 2 then f else if 1 / 2 < r then f + 1 else if even f then f else f + 1)"

text \<open>\<open>floor_log2 q\<close> is \<open>\<lfloor>log\<^sub>2 q\<rfloor>\<close> for a positive rational \<open>q\<close>.\<close>

definition floor_log2 :: "rat \<Rightarrow> int" where
  "floor_log2 q =
     (let (n, d) = quotient_of q; k = bitlen n - bitlen d
      in if 2 powi k \<le> q then k else k - 1)"

definition round_double :: "rat \<Rightarrow> rat" where
  "round_double q =
     (if q = 0 then 0
      else let e = max (floor_log2 \<bar>q\<bar> - 52) (- 1074)
           in of_int (round_half_even (q / 2 powi e)) * 2 powi e)"

text \<open>\<open>a / b\<close> on two integers (true division, correctly rounded), \<open>x + y\<close> and
  \<open>x * y\<close> on floats. An integer operand of a mixed operation is converted to a float
  first; the integers of this program are small enough to convert exactly.\<close>

definition int_truediv :: "int \<Rightarrow> int \<Rightarrow> rat" where
  "int_truediv a b = round_double (of_int a / of_int b)"

definition float_add :: "rat \<Rightarrow> rat \<Rightarrow> rat" where
  "float_add x y = round_double (x + y)"

definition float_mul :: "rat \<Rightarrow> rat \<Rightarrow> rat" where
  "float_mul x y = round_double (x * y)"

section \<open>Data model\<close>

text \<open>
  The rows of \<open>libs/database/models.py\<close> that the routing engine reads and writes.
  Timestamps (\<open>DateTime\<close>) are integers: microseconds since the epoch, the resolution
  of \<open>datetime\<close>. Field names carry the initial of their table, since several tables
  share \<open>id\<close>, \<open>priority\<close> and \<open>is_active\<close>. A NULL \<open>is_active\<close> behaves as False
  in every test of the engine and is not distinguished from it. The columns
  \<open>workload_capacity\<close> and \<open>priority\<close> carry defaults (10 and 1) and hold integers;
  \<open>department\<close>, \<open>assignee\<close> and \<open>team\<close> may be NULL, and \<open>skills\<close> is any JSON value.
\<close>

record user =
  u_id :: string
  u_username :: string
  u_department :: "string option"
  u_skills :: pyval
  u_workload_capacity :: int
  u_is_active :: bool

record routing_rule =
  r_id :: int
  r_name :: string
  r_condition :: pyval
  r_assignee :: "string option"
  r_team :: "string option"
  r_priority :: int
  r_is_active :: bool

record document_assignment =
  a_id :: int
  a_doc_id :: string
  a_user_id :: string
  a_assigned_by :: string
  a_status :: string
  a_priority :: int
  a_due_date :: "int option"
  a_completed_at :: "int option"
  a_created_at :: int

text \<open>The database behind a \<open>Session\<close>: the three tables in row order, and the last value
  handed out by the autoincrement sequence of \<open>document_assignments.id\<close>.\<close>

record database =
  rules :: "routing_rule list"
  users :: "user list"
  assignments :: "document_assignment list"
  assignment_seq :: int

text \<open>The class \<open>DefaultRule\<close> of \<open>_get_default_routing_rule\<close>, and the value bound to
  \<open>matched_rule\<close>: a stored rule or a default rule.\<close>

record default_rule =
  d_name :: string
  d_assignee :: string
  d_team :: string
  d_priority :: int

datatype matched_rule = Stored routing_rule | Default default_rule

fun rule_name :: "matched_rule \<Rightarrow> string" where
  "rule_name (Stored r) = r_name r"
| "rule_name (Default d) = d_name d"

fun rule_assignee :: "matched_rule \<Rightarrow> string option" where
  "rule_assignee (Stored r) = r_assignee r"
| "rule_assignee (Default d) = Some (d_assignee d)"

fun rule_team :: "matched_rule \<Rightarrow> string option" where
  "rule_team (Stored r) = r_team r"
| "rule_team (Default d) = Some (d_team d)"

section \<open>Rule matching\<close>

text \<open>
  Line 26: the active rules by descending priority. SQL leaves the order of rules of equal
  priority open; the model keeps their row order (\<open>sort_key\<close> is stable).
\<close>

definition active_rules :: "database \<Rightarrow> routing_rule list" where
  "active_rules db = sort_key (\<lambda>r. - r_priority r) (filter r_is_active (rules db))"

text \<open>\<open>entities.get(key, [])\<close>.\<close>

definition get_or_empty_list :: "py_dict \<Rightarrow> string \<Rightarrow> pyval" where
  "get_or_empty_list entities key =
     (case map_of entities key of None \<Rightarrow> PList [] | Some v \<Rightarrow> v)"

text \<open>Lines 29--39: the document context.\<close>

definition document_context :: "string \<Rightarrow> rat \<Rightarrow> py_dict \<Rightarrow> rat \<Rightarrow> int \<Rightarrow> py_dict" where
  "document_context doc_type confidence entities risk_score priority =
     [(''doc_type'', PStr doc_type),
      (''confidence'', PFloat confidence),
      (''entities'', PDict entities),
      (''risk_score'', PFloat risk_score),
      (''priority'', PInt priority),
      (''persons'', get_or_empty_list entities ''persons''),
      (''organizations'', get_or_empty_list entities ''organizations''),
      (''amounts'', get_or_empty_list entities ''money''),
      (''dates'', get_or_empty_list entities ''dates'')]"

text \<open>Lines 42--46: the loop over the rules, left by \<open>break\<close> at the first match.\<close>

fun find_matching_rule :: "(string \<Rightarrow> string) \<Rightarrow> routing_rule list \<Rightarrow> py_dict \<Rightarrow> routing_rule option" where
  "find_matching_rule lower [] context = None"
| "find_matching_rule lower (rule # rest) context =
     (if evaluate_rule_condition lower (r_condition rule) context then Some rule
      else find_matching_rule lower rest context)"

text \<open>\<open>_get_default_routing_rule\<close> (lines 154--179).\<close>

definition default_mappings :: "(string \<times> string) list" where
  "default_mappings =
     [(''contract'', ''legal-team''),
      (''invoice'', ''finance-team''),
      (''legal'', ''legal-team''),
      (''financial'', ''finance-team''),
      (''hr'', ''hr-team''),
      (''technical'', ''engineering-team''),
      (''report'', ''management-team''),
      (''correspondence'', ''admin-team'')]"

definition get_default_routing_rule :: "string \<Rightarrow> default_rule" where
  "get_default_routing_rule doc_type =
     (let assignee = (case map_of default_mappings doc_type of
                        None \<Rightarrow> ''admin-team''
                      | Some team \<Rightarrow> team)
      in \<lparr>d_name = ''Default rule for '' @ doc_type,
          d_assignee = assignee,
          d_team = assignee,
          d_priority = 1\<rparr>)"

text \<open>Lines 42--50: the rule that routing goes on with. A rule object is always true as
  a condition, so the test of line 52 never fires.\<close>

definition select_rule :: "(string \<Rightarrow> string) \<Rightarrow> routing_rule list \<Rightarrow> py_dict \<Rightarrow> string \<Rightarrow> matched_rule" where
  "select_rule lower rule_list context doc_type =
     (case find_matching_rule lower rule_list context of
        Some rule \<Rightarrow> Stored rule
      | None \<Rightarrow> Default (get_default_routing_rule doc_type))"

section \<open>Assignee selection\<close>

text \<open>Line 185.\<close>

definition available_users :: "database \<Rightarrow> user list" where
  "available_users db = filter u_is_active (users db)"

text \<open>Lines 200--203 and 207--210: the active users of a department. A NULL department
  equals no name.\<close>

definition users_in_department :: "string \<Rightarrow> database \<Rightarrow> user list" where
  "users_in_department department db =
     filter (\<lambda>u. u_department u = Some department \<and> u_is_active u) (users db)"

text \<open>Lines 193--203: the candidates found through \<open>rule.assignee\<close>.
  \<open>.first()\<close> is the first row with that username (usernames are unique).\<close>

definition candidates_by_assignee :: "matched_rule \<Rightarrow> database \<Rightarrow> user list" where
  "candidates_by_assignee rule db =
     (case rule_assignee rule of
        None \<Rightarrow> []
      | Some assignee \<Rightarrow>
          if assignee = [] then []
          else (case find (\<lambda>u. u_username u = assignee) (users db) of
                  Some user \<Rightarrow>
                    if u_is_active user then [user]
                    else users_in_department (str_remove ''-team'' assignee) db
                | None \<Rightarrow> users_in_department (str_remove ''-team'' assignee) db))"

text \<open>Lines 205--210: the candidates after the test on \<open>rule.team\<close>.\<close>

definition candidates_by_team :: "matched_rule \<Rightarrow> database \<Rightarrow> user list \<Rightarrow> user list" where
  "candidates_by_team rule db candidate_users =
     (case rule_team rule of
        None \<Rightarrow> candidate_users
      | Some team \<Rightarrow>
          if team \<noteq> [] \<and> candidate_users = []
          then users_in_department (str_remove ''-team'' team) db
          else candidate_users)"

text \<open>Lines 191--213: the candidate pool.\<close>

definition candidate_pool :: "matched_rule \<Rightarrow> database \<Rightarrow> user list" where
  "candidate_pool rule db =
     (let candidate_users = candidates_by_team rule db (candidates_by_assignee rule db)
      in if candidate_users = [] then available_users db else candidate_users)"

text \<open>Lines 221--224.\<close>

definition active_assignments :: "user \<Rightarrow> database \<Rightarrow> nat" where
  "active_assignments user db =
     length (filter (\<lambda>a. a_user_id a = u_id user \<and>
                         (a_status a = ''assigned'' \<or> a_status a = ''in_progress''))
                    (assignments db))"

text \<open>Lines 230--234: whether \<open>skills_bonus\<close> becomes \<open>-0.2\<close>.\<close>

definition skills_match :: "user \<Rightarrow> py_dict \<Rightarrow> bool" where
  "skills_match user context =
     (case map_of context ''doc_type'' of
        None \<Rightarrow> False
      | Some doc_type \<Rightarrow>
          py_truthy (u_skills user) \<and> py_truthy doc_type \<and>
          (case u_skills user of
             PList user_skills \<Rightarrow> py_in_list doc_type user_skills
           | _ \<Rightarrow> False))"

text \<open>Lines 227--236. The literal \<open>0.2\<close> is the double nearest to 1/5.\<close>

definition effective_workload :: "user \<Rightarrow> py_dict \<Rightarrow> database \<Rightarrow> rat" where
  "effective_workload user context db =
     (let workload_ratio =
            int_truediv (int (active_assignments user db)) (max (u_workload_capacity user) 1);
          skills_bonus = (if skills_match user context then - round_double (1 / 5) else 0)
      in float_add workload_ratio skills_bonus)"

text \<open>
  Lines 216--240: the loop over the candidates. The state is \<open>(best_user, lowest_workload)\<close>;
  \<open>lowest_workload\<close> is \<open>None\<close> while it still holds \<open>float('inf')\<close>, which every
  workload is below.
\<close>

fun lowest_workload_loop ::
  "user list \<Rightarrow> py_dict \<Rightarrow> database \<Rightarrow> user option \<times> rat option \<Rightarrow> user option \<times> rat option"
where
  "lowest_workload_loop [] context db state = state"
| "lowest_workload_loop (user # rest) context db (best_user, lowest_workload) =
     (let w = effective_workload user context db
      in if (case lowest_workload of None \<Rightarrow> True | Some l \<Rightarrow> w < l)
         then lowest_workload_loop rest context db (Some user, Some w)
         else lowest_workload_loop rest context db (best_user, lowest_workload))"

record assignee =
  as_user_id :: string
  as_username :: string
  as_current_workload :: rat

text \<open>Lines 215--249: the choice among the candidates.\<close>

definition select_lowest_workload :: "user list \<Rightarrow> py_dict \<Rightarrow> database \<Rightarrow> assignee option" where
  "select_lowest_workload candidate_users context db =
     (case lowest_workload_loop candidate_users context db (None, None) of
        (Some best_user, Some lowest_workload) \<Rightarrow>
          Some \<lparr>as_user_id = u_id best_user,
                as_username = u_username best_user,
                as_current_workload = lowest_workload\<rparr>
      | _ \<Rightarrow> None)"

text \<open>\<open>_find_best_assignee\<close> (lines 181--249).\<close>

definition find_best_assignee :: "matched_rule \<Rightarrow> py_dict \<Rightarrow> database \<Rightarrow> assignee option" where
  "find_best_assignee rule context db =
     (if available_users db = [] then None
      else select_lowest_workload (candidate_pool rule db) context db)"

section \<open>Due date\<close>

definition priority_hours :: "(int \<times> int) list" where
  "priority_hours = [(5, 2), (4, 8), (3, 24), (2, 72), (1, 168)]"

text \<open>The float literals of \<open>type_modifiers\<close>: each is the double nearest to the decimal
  written in the source.\<close>

definition type_modifiers :: "(string \<times> rat) list" where
  "type_modifiers =
     [(''legal'', round_double (5 / 10)),
      (''contract'', round_double (5 / 10)),
      (''invoice'', round_double (7 / 10)),
      (''financial'', round_double (8 / 10)),
      (''hr'', round_double 1),
      (''technical'', round_double (12 / 10)),
      (''report'', round_double (15 / 10)),
      (''correspondence'', round_double 1)]"

text \<open>
  \<open>timedelta(hours=h)\<close> for a float \<open>h\<close>: the duration in microseconds, rounded to the
  nearest microsecond, ties to even, as the \<open>datetime\<close> documentation states.
\<close>

definition timedelta_hours :: "rat \<Rightarrow> int" where
  "timedelta_hours h = round_half_even (h * 3600000000)"

text \<open>\<open>_calculate_due_date\<close> (lines 251--281); \<open>now\<close> is the value of
  \<open>datetime.utcnow()\<close>.\<close>

definition calculate_due_date :: "int \<Rightarrow> int \<Rightarrow> string \<Rightarrow> int" where
  "calculate_due_date now priority doc_type =
     (let base_hours = (case map_of priority_hours priority of None \<Rightarrow> 72 | Some h \<Rightarrow> h);
          modifier = (case map_of type_modifiers doc_type of None \<Rightarrow> 1 | Some m \<Rightarrow> m);
          due_hours = float_mul (of_int base_hours) modifier
      in now + timedelta_hours due_hours)"

section \<open>Routing\<close>

record routing_result =
  res_assignment_id :: int
  res_assigned_to :: string
  res_user_id :: string
  res_routing_reason :: string
  res_priority :: int
  res_due_date :: "int option"

text \<open>
  Lines 73--75, \<open>db.add\<close>, \<open>db.commit\<close> and \<open>db.refresh\<close>: the row is stored with the next
  value of the sequence as its id and the server's time as \<open>created_at\<close>, whatever the
  new object held in these two fields, and is read back.
\<close>

definition add_assignment ::
  "int \<Rightarrow> document_assignment \<Rightarrow> database \<Rightarrow> document_assignment \<times> database" where
  "add_assignment server_now assignment db =
     (let stored = assignment\<lparr>a_id := assignment_seq db + 1, a_created_at := server_now\<rparr>
      in (stored, db\<lparr>assignments := assignments db @ [stored],
                      assignment_seq := assignment_seq db + 1\<rparr>))"

text \<open>
  \<open>route_document\<close> (lines 13--84). \<open>now\<close> is the application's \<open>datetime.utcnow()\<close>,
  \<open>server_now\<close> the database server's \<open>now()\<close>. The result is the returned dictionary
  (\<open>None\<close> for the two early returns) and the database after the call.
\<close>

definition route_document ::
  "(string \<Rightarrow> string) \<Rightarrow> int \<Rightarrow> int \<Rightarrow> string \<Rightarrow> string \<Rightarrow> rat \<Rightarrow> py_dict \<Rightarrow> rat \<Rightarrow> int \<Rightarrow> database
     \<Rightarrow> routing_result option \<times> database" where
  "route_document lower now server_now document_id doc_type confidence entities risk_score priority db =
     (let rule_list = active_rules db;
          context = document_context doc_type confidence entities risk_score priority;
          matched_rule = select_rule lower rule_list context doc_type
      in case find_best_assignee matched_rule context db of
           None \<Rightarrow> (None, db)
         | Some assignee \<Rightarrow>
             (let (assignment, db') =
                    add_assignment server_now
                      \<lparr>a_id = 0,
                       a_doc_id = document_id,
                       a_user_id = as_user_id assignee,
                       a_assigned_by = ''routing_engine'',
                       a_status = ''assigned'',
                       a_priority = priority,
                       a_due_date = Some (calculate_due_date now priority doc_type),
                       a_completed_at = None,
                       a_created_at = 0\<rparr> db
              in (Some \<lparr>res_assignment_id = a_id assignment,
                        res_assigned_to = as_username assignee,
                        res_user_id = as_user_id assignee,
                        res_routing_reason = ''Matched rule: '' @ rule_name matched_rule,
                        res_priority = priority,
                        res_due_date = a_due_date assignment\<rparr>, db')))"

text \<open>
  Lines 56--84 of \<open>route_document\<close> on their own: what routing does once the rule is
  chosen.
\<close>

definition assign_under_rule ::
  "matched_rule \<Rightarrow> int \<Rightarrow> int \<Rightarrow> string \<Rightarrow> string \<Rightarrow> int \<Rightarrow> py_dict \<Rightarrow> database
     \<Rightarrow> routing_result option \<times> database" where
  "assign_under_rule matched_rule now server_now document_id doc_type priority context db =
     (case find_best_assignee matched_rule context db of
        None \<Rightarrow> (None, db)
      | Some assignee \<Rightarrow>
          (let (assignment, db') =
                 add_assignment server_now
                   \<lparr>a_id = 0,
                    a_doc_id = document_id,
                    a_user_id = as_user_id assignee,
                    a_assigned_by = ''routing_engine'',
                    a_status = ''assigned'',
                    a_priority = priority,
                    a_due_date = Some (calculate_due_date now priority doc_type),
                    a_completed_at = None,
                    a_created_at = 0\<rparr> db
           in (Some \<lparr>res_assignment_id = a_id assignment,
                     res_assigned_to = as_username assignee,
                     res_user_id = as_user_id assignee,
                     res_routing_reason = ''Matched rule: '' @ rule_name matched_rule,
                     res_priority = priority,
                     res_due_date = a_due_date assignment\<rparr>, db')))"

section \<open>Statistics\<close>

record routing_statistics =
  total_assignments :: nat
  status_distribution :: "(string \<times> nat) list"
  avg_completion_time_hours :: rat
  user_workloads :: "(string \<times> nat) list"

text \<open>Lines 290--294.\<close>

definition status_counts :: "database \<Rightarrow> (string \<times> nat) list" where
  "status_counts db =
     map (\<lambda>status. (status, length (filter (\<lambda>a. a_status a = status) (assignments db))))
         [''assigned'', ''in_progress'', ''completed'', ''overdue'']"

text \<open>Lines 297--300.\<close>

definition completed_assignments :: "database \<Rightarrow> document_assignment list" where
  "completed_assignments db =
     filter (\<lambda>a. a_status a = ''completed'' \<and> a_completed_at a \<noteq> None) (assignments db)"

text \<open>Lines 304--306: \<open>total_time\<close> after the loop; \<open>total_seconds()\<close> divides the
  microseconds of the difference by \<open>10\<^sup>6\<close>.\<close>

fun total_time_loop :: "document_assignment list \<Rightarrow> rat \<Rightarrow> rat" where
  "total_time_loop [] total_time = total_time"
| "total_time_loop (assignment # rest) total_time =
     (case a_completed_at assignment of
        None \<Rightarrow> total_time_loop rest total_time
      | Some completed_at \<Rightarrow>
          total_time_loop rest
            (float_add total_time
               (int_truediv (completed_at - a_created_at assignment) 1000000)))"

text \<open>\<open>round(x, 2)\<close> on a float: the double nearest to \<open>x\<close> rounded to two decimals.\<close>

definition py_round2 :: "rat \<Rightarrow> rat" where
  "py_round2 x = round_double (of_int (round_half_even (x * 100)) / 100)"

text \<open>Lines 302--310: \<open>total_time / len(completed_assignments) / 3600\<close>, two float
  divisions.\<close>

definition avg_completion_time :: "database \<Rightarrow> rat" where
  "avg_completion_time db =
     (let completed = completed_assignments db
      in if completed \<noteq> []
         then round_double
                (round_double (total_time_loop completed 0 / of_nat (length completed)) / 3600)
         else 0)"

text \<open>
  Attribute lookup on \<open>db\<close>. The parameter is a \<open>sqlalchemy.orm.Session\<close>, made by the
  \<open>sessionmaker\<close> of \<open>libs/database/connection.py\<close>. A Session has the methods the engine
  calls elsewhere, and no attribute \<open>func\<close>: the SQL function namespace is
  \<open>sqlalchemy.func\<close>, which \<open>analytics.py\<close> imports for the same query and
  \<open>router.py\<close> does not.
\<close>

definition session_getattr :: "string \<Rightarrow> py_error + unit" where
  "session_getattr attr =
     (if attr \<in> set [''query'', ''add'', ''commit'', ''refresh'', ''close'', ''delete'',
                      ''rollback'', ''flush'', ''execute'']
      then Inr () else Inl AttributeError)"

text \<open>Lines 313--317, the outer join grouped by user: every user with the number of their
  active assignments.\<close>

definition user_workload_rows :: "database \<Rightarrow> (string \<times> nat) list" where
  "user_workload_rows db = map (\<lambda>u. (u_username u, active_assignments u db)) (users db)"

text \<open>\<open>get_routing_statistics\<close> (lines 283--327). The queries of lines 287--300 only
  read; line 313 evaluates \<open>db.func\<close> before it builds its query; the dictionary of
  lines 319--327 rounds the average to two decimals.\<close>

definition get_routing_statistics :: "database \<Rightarrow> py_error + routing_statistics" where
  "get_routing_statistics db =
     (let total = length (assignments db);
          counts = status_counts db;
          avg = avg_completion_time db
      in case session_getattr ''func'' of
           Inl e \<Rightarrow> Inl e
         | Inr _ \<Rightarrow>
             Inr \<lparr>total_assignments = total,
                  status_distribution = counts,
                  avg_completion_time_hours = py_round2 avg,
                  user_workloads = user_workload_rows db\<rparr>)"

section \<open>The specification's wording\<close>

text \<open>
  The definitions of this section follow the words of the specification, not the code;
  they are what the code is compared with.
\<close>

text \<open>Plain-string matching: a case-insensitive substring of a string value or of any
  string element of a list value; any other value type is no match.\<close>

definition claimed_string_match :: "(string \<Rightarrow> string) \<Rightarrow> string \<Rightarrow> pyval \<Rightarrow> bool" where
  "claimed_string_match lower e v =
     (case v of
        PStr s \<Rightarrow> sublist (lower e) (lower s)
      | PList items \<Rightarrow>
          list_ex (\<lambda>item. case item of PStr s \<Rightarrow> sublist (lower e) (lower s) | _ \<Rightarrow> False) items
      | _ \<Rightarrow> False)"

text \<open>A numeric comparison: fails when the context value is not numeric.\<close>

definition claimed_numeric :: "(rat \<Rightarrow> rat \<Rightarrow> bool) \<Rightarrow> pyval \<Rightarrow> pyval \<Rightarrow> bool" where
  "claimed_numeric rel v bound =
     (case num_val v of
        None \<Rightarrow> False
      | Some x \<Rightarrow> (case num_val bound of None \<Rightarrow> False | Some y \<Rightarrow> rel x y))"

text \<open>\<open>contains\<close>: the substring semantics of the plain-string case.\<close>

definition claimed_contains :: "(string \<Rightarrow> string) \<Rightarrow> pyval \<Rightarrow> pyval \<Rightarrow> bool" where
  "claimed_contains lower v bound =
     (case bound of PStr e \<Rightarrow> claimed_string_match lower e v | _ \<Rightarrow> False)"

definition claimed_key :: "py_dict \<Rightarrow> string \<Rightarrow> (pyval \<Rightarrow> bool) \<Rightarrow> bool" where
  "claimed_key d key holds = (case map_of d key of None \<Rightarrow> True | Some bound \<Rightarrow> holds bound)"

text \<open>When one constraint is satisfied by a context value: a plain string, a nested
  object (all the keys it carries hold), a number. The specification names no other kind
  of expected value; the last equation leaves them without effect.\<close>

fun claimed_satisfied :: "(string \<Rightarrow> string) \<Rightarrow> pyval \<Rightarrow> pyval \<Rightarrow> bool" where
  "claimed_satisfied lower (PStr e) v = claimed_string_match lower e v"
| "claimed_satisfied lower (PDict d) v =
     (claimed_key d ''gt'' (claimed_numeric (\<lambda>x y. y < x) v) \<and>
      claimed_key d ''lt'' (claimed_numeric (\<lambda>x y. x < y) v) \<and>
      claimed_key d ''gte'' (claimed_numeric (\<lambda>x y. y \<le> x) v) \<and>
      claimed_key d ''lte'' (claimed_numeric (\<lambda>x y. x \<le> y) v) \<and>
      claimed_key d ''contains'' (claimed_contains lower v))"
| "claimed_satisfied lower e v =
     (case num_val e of None \<Rightarrow> True | Some x \<Rightarrow> num_val v = Some x)"

text \<open>Every constraint whose field is present in the context is satisfied.\<close>

definition claimed_evaluate :: "(string \<Rightarrow> string) \<Rightarrow> py_dict \<Rightarrow> py_dict \<Rightarrow> bool" where
  "claimed_evaluate lower condition context =
     list_all (\<lambda>(key, expected).
                 case map_of context key of
                   None \<Rightarrow> True
                 | Some v \<Rightarrow> claimed_satisfied lower expected v) condition"

text \<open>Whether a constraint applies \<open>contains\<close> to a string or a list (or has no
  \<open>contains\<close> at all).\<close>

definition contains_applicable :: "pyval \<Rightarrow> pyval \<Rightarrow> bool" where
  "contains_applicable expected v =
     (case expected of
        PDict d \<Rightarrow>
          map_of d ''contains'' = None \<or>
          (case v of PStr s \<Rightarrow> True | PList items \<Rightarrow> True | _ \<Rightarrow> False)
      | _ \<Rightarrow> True)"

definition all_contains_applicable :: "py_dict \<Rightarrow> py_dict \<Rightarrow> bool" where
  "all_contains_applicable condition context =
     list_all (\<lambda>(key, expected).
                 case map_of context key of
                   None \<Rightarrow> True
                 | Some v \<Rightarrow> contains_applicable expected v) condition"

text \<open>A nested constraint object that carries none of the recognized keys.\<close>

definition recognized_keys :: "string list" where
  "recognized_keys = [''gt'', ''lt'', ''gte'', ''lte'', ''contains'']"

definition no_recognized_key :: "pyval \<Rightarrow> bool" where
  "no_recognized_key expected =
     (case expected of
        PDict d \<Rightarrow> list_all (\<lambda>key. map_of d key = None) recognized_keys
      | _ \<Rightarrow> False)"

text \<open>The three steps of the candidate pool: the active worker that the rule names
  directly, and the active workers of the department that a field names as a team.\<close>

definition named_worker :: "matched_rule \<Rightarrow> database \<Rightarrow> user option" where
  "named_worker rule db =
     (case rule_assignee rule of
        None \<Rightarrow> None
      | Some name \<Rightarrow>
          (case find (\<lambda>u. u_username u = name) (users db) of
             None \<Rightarrow> None
           | Some worker \<Rightarrow> if name \<noteq> [] \<and> u_is_active worker then Some worker else None))"

definition team_pool :: "string option \<Rightarrow> database \<Rightarrow> user list" where
  "team_pool field db =
     (case field of
        None \<Rightarrow> []
      | Some name \<Rightarrow>
          if name = [] then []
          else filter (\<lambda>u. u_is_active u \<and> u_department u = Some (str_remove ''-team'' name))
                      (users db))"

text \<open>The team name with a \<open>-team\<close> suffix stripped, and the active workers of that
  department.\<close>

definition claimed_strip_suffix :: "string \<Rightarrow> string" where
  "claimed_strip_suffix name =
     (if suffix ''-team'' name then take (length name - 5) name else name)"

definition claimed_team_pool :: "string \<Rightarrow> database \<Rightarrow> user list" where
  "claimed_team_pool name db =
     filter (\<lambda>u. u_is_active u \<and> u_department u = Some (claimed_strip_suffix name)) (users db)"



text \<open>The due date in exact arithmetic: base hours times the decimal modifier.\<close>

definition claimed_modifier :: "string \<Rightarrow> rat" where
  "claimed_modifier doc_type =
     (case map_of [(''legal'', 5 / 10), (''contract'', 5 / 10), (''invoice'', 7 / 10),
                   (''financial'', 8 / 10), (''hr'', 1), (''technical'', 12 / 10),
                   (''report'', 15 / 10), (''correspondence'', 1)] doc_type of
        None \<Rightarrow> 1
      | Some m \<Rightarrow> m)"

definition claimed_base_hours :: "int \<Rightarrow> rat" where
  "claimed_base_hours priority =
     (if priority = 5 then 2 else if priority = 4 then 8 else if priority = 3 then 24
      else if priority = 2 then 72 else if priority = 1 then 168 else 72)"

section \<open>Example data\<close>

text \<open>Concrete rules, workers and databases on which the theorems below are instantiated.\<close>

definition ex_alice :: user where
  "ex_alice = \<lparr>u_id = ''u-alice'', u_username = ''alice'', u_department = Some ''legal'',
               u_skills = PList [PStr ''contract''], u_workload_capacity = 10,
               u_is_active = True\<rparr>"

definition ex_bob :: user where
  "ex_bob = \<lparr>u_id = ''u-bob'', u_username = ''bob'', u_department = Some ''finance'',
             u_skills = PNone, u_workload_capacity = 10, u_is_active = True\<rparr>"

definition ex_carol :: user where
  "ex_carol = \<lparr>u_id = ''u-carol'', u_username = ''carol'', u_department = Some ''support-2'',
               u_skills = PNone, u_workload_capacity = 10, u_is_active = True\<rparr>"

definition ex_dave :: user where
  "ex_dave = \<lparr>u_id = ''u-dave'', u_username = ''dave'',
              u_department = Some ''support-team-2'',
              u_skills = PNone, u_workload_capacity = 10, u_is_active = True\<rparr>"

definition ex_row :: "int \<Rightarrow> string \<Rightarrow> string \<Rightarrow> document_assignment" where
  "ex_row n uid status =
     \<lparr>a_id = n, a_doc_id = ''doc-0'', a_user_id = uid, a_assigned_by = ''routing_engine'',
      a_status = status, a_priority = 3, a_due_date = None, a_completed_at = None,
      a_created_at = 0\<rparr>"

definition ex_rule_contracts :: routing_rule where
  "ex_rule_contracts =
     \<lparr>r_id = 1, r_name = ''Contracts'',
      r_condition = PDict [(''doc_type'', PStr ''Contract'')],
      r_assignee = None, r_team = Some ''finance-team'', r_priority = 3, r_is_active = True\<rparr>"

definition ex_rule_risky :: routing_rule where
  "ex_rule_risky =
     \<lparr>r_id = 2, r_name = ''Risky contracts'',
      r_condition = PDict [(''doc_type'', PStr ''contract''),
                           (''risk_score'', PDict [(''gte'', PFloat (1 / 2))])],
      r_assignee = None, r_team = Some ''legal-team'', r_priority = 5, r_is_active = True\<rparr>"

definition ex_rule_support :: routing_rule where
  "ex_rule_support =
     \<lparr>r_id = 3, r_name = ''Support'', r_condition = PDict [],
      r_assignee = None, r_team = Some ''support-team-2'', r_priority = 1, r_is_active = True\<rparr>"

text \<open>Two rules that both match a risky contract, stored in ascending priority; two
  active workers without assignments.\<close>

definition ex_db :: database where
  "ex_db = \<lparr>rules = [ex_rule_contracts, ex_rule_risky], users = [ex_bob, ex_alice],
            assignments = [], assignment_seq = 0\<rparr>"


text \<open>Every worker inactive.\<close>

definition ex_db_inactive :: database where
  "ex_db_inactive =
     \<lparr>rules = [ex_rule_contracts],
      users = [ex_bob\<lparr>u_is_active := False\<rparr>, ex_alice\<lparr>u_is_active := False\<rparr>],
      assignments = [ex_row 1 ''u-bob'' ''assigned''], assignment_seq = 1\<rparr>"

text \<open>Two support departments, one named with \<open>-team\<close> inside.\<close>

definition ex_db_support :: database where
  "ex_db_support = \<lparr>rules = [ex_rule_support], users = [ex_carol, ex_dave, ex_alice],
                    assignments = [], assignment_seq = 0\<rparr>"

section \<open>Lemmas: floating point\<close>

text \<open>The rounding of the model gives the doubles that Python prints as \<open>0.1\<close>, \<open>0.2\<close>
  and \<open>0.7\<close>, and \<open>0.1 + 0.2\<close> is \<open>0.30000000000000004\<close>.\<close>

lemma round_double_known_values:
  "round_double (1 / 10) = 3602879701896397 / 36028797018963968"
  "round_double (2 / 10) = 3602879701896397 / 18014398509481984"
  "round_double (7 / 10) = 3152519739159347 / 4503599627370496"
  "float_add (round_double (1 / 10)) (round_double (2 / 10))
     = 1351079888211149 / 4503599627370496"
  by code_simp+

section \<open>Lemmas: condition evaluator\<close>

lemma except_false_and_then:
  "except_false (and_then r k) = (except_false r \<and> except_false k)"
  by (auto simp: except_false_def and_then_def split: sum.splits)

lemma found_in_list_iff:
  "found_in_list lower e items =
     list_ex (\<lambda>item. case item of PStr s \<Rightarrow> sublist (lower e) (lower s) | _ \<Rightarrow> False) items"
  by (induction items) (auto split: pyval.splits)

lemma check_string_claimed: "check_string lower e v = Inr (claimed_string_match lower e v)"
  by (simp add: check_string_def claimed_string_match_def found_in_list_iff split: pyval.splits)

lemma check_number_claimed: "check_number x v = Inr (num_val v = Some x)"
  by (simp add: check_number_def split: option.splits)

lemma check_bound_claimed:
  "except_false (check_bound key rel d v) = claimed_key d key (claimed_numeric rel v)"
  by (simp add: check_bound_def compare_bound_def claimed_key_def claimed_numeric_def
      except_false_def split: option.splits)

lemma contains_in_list_claimed:
  "except_false (contains_in_list lower bound items) = claimed_contains lower (PList items) bound"
proof (induction items)
  case Nil
  then show ?case
    by (simp add: except_false_def claimed_contains_def claimed_string_match_def
        split: pyval.splits)
next
  case (Cons item items)
  show ?case
  proof (cases bound)
    case (PStr e)
    with Cons show ?thesis
      by (cases item)
         (simp_all add: except_false_def claimed_contains_def claimed_string_match_def)
  qed (use Cons in \<open>cases item;
      simp add: except_false_def claimed_contains_def claimed_string_match_def\<close>)+
qed

lemma check_contains_claimed:
  "contains_applicable (PDict d) v \<Longrightarrow>
   except_false (check_contains lower d v) = claimed_key d ''contains'' (claimed_contains lower v)"
proof (cases "map_of d ''contains''")
  case None
  then show ?thesis by (simp add: check_contains_def claimed_key_def except_false_def)
next
  case (Some bound)
  assume "contains_applicable (PDict d) v"
  with Some consider s where "v = PStr s" | items where "v = PList items"
    by (auto simp: contains_applicable_def split: pyval.splits)
  then show ?thesis
  proof cases
    case 1
    with Some show ?thesis
      by (cases bound)
         (simp_all add: check_contains_def claimed_key_def claimed_contains_def
            claimed_string_match_def except_false_def)
  next
    case 2
    with Some show ?thesis
      using contains_in_list_claimed[of lower bound]
      by (simp add: check_contains_def claimed_key_def)
  qed
qed

lemma check_contains_weaker:
  "claimed_key d ''contains'' (claimed_contains lower v) \<Longrightarrow> except_false (check_contains lower d v)"
proof (cases "contains_applicable (PDict d) v")
  case True
  assume "claimed_key d ''contains'' (claimed_contains lower v)"
  with check_contains_claimed[OF True] show ?thesis by simp
next
  case False
  then show ?thesis
    by (auto simp: contains_applicable_def check_contains_def except_false_def
        split: pyval.splits option.splits)
qed

lemma check_constraint_claimed:
  "contains_applicable e v \<Longrightarrow> except_false (check_constraint lower e v) = claimed_satisfied lower e v"
proof (cases e)
  case (PDict d)
  assume "contains_applicable e v"
  with PDict show ?thesis
    by (simp add: check_advanced_def except_false_and_then check_bound_claimed
        check_contains_claimed)
qed (simp_all add: check_string_claimed check_number_claimed except_false_def)

lemma check_constraint_weaker:
  "claimed_satisfied lower e v \<Longrightarrow> except_false (check_constraint lower e v)"
proof (cases e)
  case (PDict d)
  assume "claimed_satisfied lower e v"
  with PDict show ?thesis
    by (simp add: check_advanced_def except_false_and_then check_bound_claimed
        check_contains_weaker)
qed (simp_all add: check_string_claimed check_number_claimed except_false_def)

lemma evaluate_items_claimed:
  "all_contains_applicable c ctx \<Longrightarrow>
   except_false (evaluate_items lower c ctx) = claimed_evaluate lower c ctx"
proof (induction c)
  case Nil
  then show ?case by (simp add: claimed_evaluate_def except_false_def)
next
  case (Cons p c)
  obtain key expected where p: "p = (key, expected)" by (cases p)
  from Cons.prems have rest: "all_contains_applicable c ctx"
    by (simp add: all_contains_applicable_def)
  have ih: "except_false (evaluate_items lower c ctx) = claimed_evaluate lower c ctx"
    by (rule Cons.IH[OF rest])
  show ?case
  proof (cases "map_of ctx key")
    case None
    with p ih show ?thesis by (simp add: claimed_evaluate_def)
  next
    case (Some v)
    with Cons.prems p have "contains_applicable expected v"
      by (simp add: all_contains_applicable_def)
    from check_constraint_claimed[OF this] Some p ih show ?thesis
      by (simp add: claimed_evaluate_def except_false_and_then)
  qed
qed

lemma evaluate_items_weaker:
  "claimed_evaluate lower c ctx \<Longrightarrow> except_false (evaluate_items lower c ctx)"
proof (induction c)
  case Nil
  then show ?case by (simp add: except_false_def)
next
  case (Cons p c)
  obtain key expected where p: "p = (key, expected)" by (cases p)
  from Cons.prems have rest: "claimed_evaluate lower c ctx"
    by (simp add: claimed_evaluate_def)
  have ih: "except_false (evaluate_items lower c ctx)"
    by (rule Cons.IH[OF rest])
  show ?case
  proof (cases "map_of ctx key")
    case None
    with p ih show ?thesis by simp
  next
    case (Some v)
    with Cons.prems p have "claimed_satisfied lower expected v"
      by (simp add: claimed_evaluate_def)
    from check_constraint_weaker[OF this] Some p ih show ?thesis
      by (simp add: except_false_and_then)
  qed
qed

lemma check_constraint_no_recognized_key:
  "no_recognized_key e \<Longrightarrow> check_constraint lower e v = Inr True"
  by (cases e)
     (simp_all add: no_recognized_key_def recognized_keys_def check_advanced_def
        check_bound_def check_contains_def and_then_def)

lemma evaluate_items_no_recognized_key:
  "list_all (\<lambda>(key, expected). no_recognized_key expected) c \<Longrightarrow>
   evaluate_items lower c ctx = Inr True"
proof (induction c)
  case Nil
  then show ?case by simp
next
  case (Cons p c)
  obtain key expected where p: "p = (key, expected)" by (cases p)
  with Cons show ?case
    by (simp add: check_constraint_no_recognized_key and_then_def split: option.splits)
qed

lemma absent_field_skipped:
  "map_of ctx key = None \<Longrightarrow>
   evaluate_rule_condition lower (PDict ((key, expected) # c)) ctx = evaluate_rule_condition lower (PDict c) ctx"
  by (simp add: evaluate_rule_condition_def)

text \<open>The evaluator and the specification's wording agree on every condition that
  applies \<open>contains\<close> to strings and lists only; in general the wording is the
  stronger of the two.\<close>

lemma evaluate_rule_condition_claimed:
  "all_contains_applicable c ctx \<Longrightarrow>
   evaluate_rule_condition lower (PDict c) ctx = claimed_evaluate lower c ctx"
  by (simp add: evaluate_rule_condition_def evaluate_items_claimed)

lemma claimed_evaluate_sufficient:
  "claimed_evaluate lower c ctx \<Longrightarrow> evaluate_rule_condition lower (PDict c) ctx"
  by (simp add: evaluate_rule_condition_def evaluate_items_weaker)

section \<open>Lemmas: rule matching\<close>

lemma find_matching_rule_Some_iff:
  "find_matching_rule lower rule_list context = Some rule \<longleftrightarrow>
     (\<exists>before after. rule_list = before @ rule # after \<and>
        (\<forall>r\<in>set before. \<not> evaluate_rule_condition lower (r_condition r) context) \<and>
        evaluate_rule_condition lower (r_condition rule) context)"
proof (induction rule_list)
  case Nil
  then show ?case by simp
next
  case (Cons r rs)
  show ?case
  proof (cases "evaluate_rule_condition lower (r_condition r) context")
    case True
    have "(\<exists>before after. r # rs = before @ rule # after \<and>
        (\<forall>x\<in>set before. \<not> evaluate_rule_condition lower (r_condition x) context) \<and>
        evaluate_rule_condition lower (r_condition rule) context) \<longleftrightarrow> r = rule"
    proof
      assume "\<exists>before after. r # rs = before @ rule # after \<and>
        (\<forall>x\<in>set before. \<not> evaluate_rule_condition lower (r_condition x) context) \<and>
        evaluate_rule_condition lower (r_condition rule) context"
      then obtain before after where h: "r # rs = before @ rule # after"
        "\<forall>x\<in>set before. \<not> evaluate_rule_condition lower (r_condition x) context" by blast
      show "r = rule"
      proof (cases before)
        case Nil
        with h show ?thesis by simp
      next
        case (Cons b bs)
        with h True show ?thesis by auto
      qed
    next
      assume "r = rule"
      with True show "\<exists>before after. r # rs = before @ rule # after \<and>
        (\<forall>x\<in>set before. \<not> evaluate_rule_condition lower (r_condition x) context) \<and>
        evaluate_rule_condition lower (r_condition rule) context"
        by (intro exI[of _ "[]"] exI[of _ rs]) simp
    qed
    with True show ?thesis by auto
  next
    case False
    have "(\<exists>before after. r # rs = before @ rule # after \<and>
        (\<forall>x\<in>set before. \<not> evaluate_rule_condition lower (r_condition x) context) \<and>
        evaluate_rule_condition lower (r_condition rule) context) \<longleftrightarrow>
      (\<exists>before after. rs = before @ rule # after \<and>
        (\<forall>x\<in>set before. \<not> evaluate_rule_condition lower (r_condition x) context) \<and>
        evaluate_rule_condition lower (r_condition rule) context)" (is "?L \<longleftrightarrow> ?R")
    proof
      assume ?L
      then obtain before after where h: "r # rs = before @ rule # after"
        "\<forall>x\<in>set before. \<not> evaluate_rule_condition lower (r_condition x) context"
        "evaluate_rule_condition lower (r_condition rule) context" by blast
      show ?R
      proof (cases before)
        case Nil
        with h False show ?thesis by simp
      next
        case (Cons b bs)
        with h show ?thesis by auto
      qed
    next
      assume ?R
      then obtain before after where h: "rs = before @ rule # after"
        "\<forall>x\<in>set before. \<not> evaluate_rule_condition lower (r_condition x) context"
        "evaluate_rule_condition lower (r_condition rule) context" by blast
      with False show ?L
        by (intro exI[of _ "r # before"] exI[of _ after]) simp
    qed
    with False Cons.IH show ?thesis by simp
  qed
qed

lemma find_matching_rule_None_iff:
  "find_matching_rule lower rule_list context = None \<longleftrightarrow>
     (\<forall>r\<in>set rule_list. \<not> evaluate_rule_condition lower (r_condition r) context)"
  by (induction rule_list) auto

lemma find_matching_rule_priority:
  "sorted_wrt (\<lambda>a b. r_priority b \<le> r_priority a) rule_list \<Longrightarrow>
   r1 \<in> set rule_list \<Longrightarrow> evaluate_rule_condition lower (r_condition r1) context \<Longrightarrow>
   \<exists>rule. find_matching_rule lower rule_list context = Some rule \<and> r_priority r1 \<le> r_priority rule"
  by (induction rule_list) auto

lemma active_rules_sorted:
  "sorted_wrt (\<lambda>a b. r_priority b \<le> r_priority a) (active_rules db)"
proof -
  have "sorted (map (\<lambda>r. - r_priority r) (active_rules db))"
    by (simp add: active_rules_def)
  then show ?thesis
    by (simp add: sorted_map sorted_wrt_iff_nth_less)
qed

section \<open>Lemmas: assignee selection\<close>

text \<open>The loop started at \<open>b\<close> ends at the first index of least workload in \<open>b # cs\<close>.\<close>

lemma lowest_workload_loop_index:
  "\<exists>i < length (b # cs).
     lowest_workload_loop cs context db (Some b, Some (effective_workload b context db)) =
       (Some ((b # cs) ! i), Some (effective_workload ((b # cs) ! i) context db)) \<and>
     (\<forall>j < length (b # cs). effective_workload ((b # cs) ! i) context db
                              \<le> effective_workload ((b # cs) ! j) context db) \<and>
     (\<forall>j < i. effective_workload ((b # cs) ! i) context db
                 < effective_workload ((b # cs) ! j) context db)"
proof (induction cs arbitrary: b)
  case Nil
  then show ?case by simp
next
  case (Cons c cs)
  let ?f = "\<lambda>u. effective_workload u context db"
  show ?case
  proof (cases "?f c < ?f b")
    case True
    from Cons.IH[of c] obtain i where i: "i < length (c # cs)"
      "lowest_workload_loop cs context db (Some c, Some (?f c)) =
         (Some ((c # cs) ! i), Some (?f ((c # cs) ! i)))"
      "\<forall>j < length (c # cs). ?f ((c # cs) ! i) \<le> ?f ((c # cs) ! j)"
      "\<forall>j < i. ?f ((c # cs) ! i) < ?f ((c # cs) ! j)" by blast
    from i(3) have le_c: "?f ((c # cs) ! i) \<le> ?f c" by (metis length_Cons nth_Cons_0 zero_less_Suc)
    have a: "Suc i < length (b # c # cs)" using i(1) by simp
    have b1: "lowest_workload_loop (c # cs) context db (Some b, Some (?f b)) =
         (Some ((b # c # cs) ! Suc i), Some (?f ((b # c # cs) ! Suc i)))"
      using True i(2) by simp
    have b2: "\<forall>j < length (b # c # cs). ?f ((b # c # cs) ! Suc i) \<le> ?f ((b # c # cs) ! j)"
    proof (intro allI impI)
      fix j assume "j < length (b # c # cs)"
      then show "?f ((b # c # cs) ! Suc i) \<le> ?f ((b # c # cs) ! j)"
        using i(3) le_c True by (cases j) auto
    qed
    have b3: "\<forall>j < Suc i. ?f ((b # c # cs) ! Suc i) < ?f ((b # c # cs) ! j)"
    proof (intro allI impI)
      fix j assume "j < Suc i"
      then show "?f ((b # c # cs) ! Suc i) < ?f ((b # c # cs) ! j)"
        using i(4) le_c True by (cases j) auto
    qed
    from a b1 b2 b3 show ?thesis by blast
  next
    case False
    from Cons.IH[of b] obtain i where i: "i < length (b # cs)"
      "lowest_workload_loop cs context db (Some b, Some (?f b)) =
         (Some ((b # cs) ! i), Some (?f ((b # cs) ! i)))"
      "\<forall>j < length (b # cs). ?f ((b # cs) ! i) \<le> ?f ((b # cs) ! j)"
      "\<forall>j < i. ?f ((b # cs) ! i) < ?f ((b # cs) ! j)" by blast
    from i(3) have le_b: "?f ((b # cs) ! i) \<le> ?f b" by (metis length_Cons nth_Cons_0 zero_less_Suc)
    let ?k = "case i of 0 \<Rightarrow> 0 | Suc n \<Rightarrow> Suc (Suc n)"
    have eqk: "(b # c # cs) ! ?k = (b # cs) ! i" by (cases i) auto
    have a: "?k < length (b # c # cs)" using i(1) by (cases i) auto
    have b1: "lowest_workload_loop (c # cs) context db (Some b, Some (?f b)) =
         (Some ((b # c # cs) ! ?k), Some (?f ((b # c # cs) ! ?k)))"
      using False i(2) eqk by simp
    have b2: "\<forall>j < length (b # c # cs). ?f ((b # c # cs) ! ?k) \<le> ?f ((b # c # cs) ! j)"
    proof (intro allI impI)
      fix j assume j: "j < length (b # c # cs)"
      show "?f ((b # c # cs) ! ?k) \<le> ?f ((b # c # cs) ! j)"
      proof (cases j)
        case 0
        then show ?thesis using le_b eqk by simp
      next
        case (Suc n)
        show ?thesis
        proof (cases n)
          case 0
          with Suc show ?thesis using le_b False eqk by simp
        next
          case (Suc m)
          with \<open>j = Suc n\<close> j have "Suc m < length (b # cs)" by simp
          with i(3) have "?f ((b # cs) ! i) \<le> ?f ((b # cs) ! Suc m)" by blast
          with Suc \<open>j = Suc n\<close> eqk show ?thesis by simp
        qed
      qed
    qed
    have b3: "\<forall>j < ?k. ?f ((b # c # cs) ! ?k) < ?f ((b # c # cs) ! j)"
    proof (intro allI impI)
      fix j assume j: "j < ?k"
      show "?f ((b # c # cs) ! ?k) < ?f ((b # c # cs) ! j)"
      proof (cases i)
        case 0
        with j show ?thesis by simp
      next
        case (Suc n)
        note iS = this
        show ?thesis
        proof (cases j)
          case 0
          have "?f ((b # cs) ! i) < ?f ((b # cs) ! 0)" using i(4) iS by blast
          with 0 eqk show ?thesis by simp
        next
          case (Suc m)
          show ?thesis
          proof (cases m)
            case 0
            have "?f ((b # cs) ! i) < ?f ((b # cs) ! 0)" using i(4) iS by blast
            with 0 Suc eqk False show ?thesis by simp
          next
            case (Suc l)
            with \<open>j = Suc m\<close> j iS have "Suc l < i" by simp
            with i(4) have "?f ((b # cs) ! i) < ?f ((b # cs) ! Suc l)" by blast
            with Suc \<open>j = Suc m\<close> eqk show ?thesis by simp
          qed
        qed
      qed
    qed
    from a b1 b2 b3 show ?thesis by blast
  qed
qed

lemma select_lowest_workload_first_min:
  assumes "cs \<noteq> []"
  shows "\<exists>i < length cs.
     select_lowest_workload cs context db =
       Some \<lparr>as_user_id = u_id (cs ! i), as_username = u_username (cs ! i),
             as_current_workload = effective_workload (cs ! i) context db\<rparr> \<and>
     (\<forall>j < length cs. effective_workload (cs ! i) context db
                         \<le> effective_workload (cs ! j) context db) \<and>
     (\<forall>j < i. effective_workload (cs ! i) context db < effective_workload (cs ! j) context db)"
proof -
  from assms obtain b rest where cs: "cs = b # rest" by (cases cs) auto
  from lowest_workload_loop_index[of b rest "context" db] obtain i where i: "i < length (b # rest)"
     "lowest_workload_loop rest context db (Some b, Some (effective_workload b context db)) =
       (Some ((b # rest) ! i), Some (effective_workload ((b # rest) ! i) context db))"
     "(\<forall>j < length (b # rest). effective_workload ((b # rest) ! i) context db
                              \<le> effective_workload ((b # rest) ! j) context db)"
     "(\<forall>j < i. effective_workload ((b # rest) ! i) context db
                 < effective_workload ((b # rest) ! j) context db)" by blast
  have "select_lowest_workload cs context db =
       Some \<lparr>as_user_id = u_id (cs ! i), as_username = u_username (cs ! i),
             as_current_workload = effective_workload (cs ! i) context db\<rparr>"
    unfolding select_lowest_workload_def cs using i(2) by simp
  with i(1,3,4) cs show ?thesis by blast
qed

lemma users_in_department_subset:
  "set (users_in_department d db) \<subseteq> set (available_users db)"
  by (auto simp: users_in_department_def available_users_def)

lemma find_Some_mem: "find P xs = Some x \<Longrightarrow> x \<in> set xs \<and> P x"
  by (induction xs) (auto split: if_splits)

lemma candidates_by_assignee_subset:
  "set (candidates_by_assignee rule db) \<subseteq> set (available_users db)"
proof (cases "rule_assignee rule")
  case None
  then show ?thesis by (simp add: candidates_by_assignee_def)
next
  case (Some a)
  show ?thesis
  proof (cases "find (\<lambda>u. u_username u = a) (users db)")
    case None
    with Some show ?thesis
      using users_in_department_subset by (simp add: candidates_by_assignee_def)
  next
    case (Some user)
    then have "user \<in> set (users db)" by (simp add: find_Some_mem)
    with Some \<open>rule_assignee rule = Some a\<close> show ?thesis
      using users_in_department_subset
      by (simp add: candidates_by_assignee_def available_users_def)
  qed
qed

lemma candidates_by_team_subset:
  "set cs \<subseteq> set (available_users db) \<Longrightarrow>
   set (candidates_by_team rule db cs) \<subseteq> set (available_users db)"
  using users_in_department_subset
  by (simp add: candidates_by_team_def split: option.splits)

lemma candidate_pool_subset: "set (candidate_pool rule db) \<subseteq> set (available_users db)"
  using candidates_by_team_subset[OF candidates_by_assignee_subset]
  by (simp add: candidate_pool_def Let_def)

lemma candidate_pool_nonempty: "available_users db \<noteq> [] \<Longrightarrow> candidate_pool rule db \<noteq> []"
  unfolding candidate_pool_def Let_def by simp

lemma find_best_assignee_None_iff:
  "find_best_assignee rule context db = None \<longleftrightarrow> available_users db = []"
proof (cases "available_users db = []")
  case True
  then show ?thesis by (simp add: find_best_assignee_def)
next
  case False
  then have "candidate_pool rule db \<noteq> []" by (rule candidate_pool_nonempty)
  from select_lowest_workload_first_min[OF this, of "context" db] False
  show ?thesis by (auto simp: find_best_assignee_def)
qed







lemma find_best_assignee_pool:
  "candidate_pool rule db \<noteq> [] \<Longrightarrow>
   find_best_assignee rule ctx db = select_lowest_workload (candidate_pool rule db) ctx db"
  using candidate_pool_subset[of rule db] by (auto simp: find_best_assignee_def)

lemma find_best_assignee_member:
  assumes "candidate_pool rule db \<noteq> []"
  shows "\<exists>worker\<in>set (candidate_pool rule db). \<exists>w.
           find_best_assignee rule ctx db =
             Some \<lparr>as_user_id = u_id worker, as_username = u_username worker,
                   as_current_workload = w\<rparr>"
proof -
  from select_lowest_workload_first_min[OF assms, of ctx db] find_best_assignee_pool[OF assms, of ctx]
  obtain i where "i < length (candidate_pool rule db)"
    "find_best_assignee rule ctx db =
       Some \<lparr>as_user_id = u_id (candidate_pool rule db ! i),
             as_username = u_username (candidate_pool rule db ! i),
             as_current_workload = effective_workload (candidate_pool rule db ! i) ctx db\<rparr>"
    by auto
  then show ?thesis using nth_mem by blast
qed

lemma default_rule_pool:
  "find (\<lambda>u. u_username u = d_assignee d) (users db) = None \<Longrightarrow> d_assignee d \<noteq> [] \<Longrightarrow>
   users_in_department (str_remove ''-team'' (d_assignee d)) db \<noteq> [] \<Longrightarrow>
   candidate_pool (Default d) db = users_in_department (str_remove ''-team'' (d_assignee d)) db"
  by (simp add: candidate_pool_def candidates_by_assignee_def candidates_by_team_def Let_def)

lemma team_pool_users_in_department:
  "n \<noteq> [] \<Longrightarrow> team_pool (Some n) db = users_in_department (str_remove ''-team'' n) db"
  by (auto simp: team_pool_def users_in_department_def intro: filter_cong)

text \<open>Floating point at the margin of the skill adjustment: three assignments of ten
  with a matching skill weigh less than one of ten without, although \<open>0.3 - 0.2\<close> and
  \<open>0.1\<close> are equal as decimals.\<close>

lemma skill_adjustment_rounding:
  "float_add (int_truediv 3 10) (- round_double (1 / 5)) < float_add (int_truediv 1 10) 0"
  by code_simp

section \<open>Lemmas: routing\<close>

lemma route_document_None:
  "find_best_assignee
     (select_rule lower (active_rules db)
        (document_context doc_type confidence entities risk_score priority) doc_type)
     (document_context doc_type confidence entities risk_score priority) db = None \<Longrightarrow>
   route_document lower now server_now document_id doc_type confidence entities risk_score priority db
     = (None, db)"
  by (simp add: route_document_def Let_def)

lemma route_document_Some:
  "find_best_assignee
     (select_rule lower (active_rules db)
        (document_context doc_type confidence entities risk_score priority) doc_type)
     (document_context doc_type confidence entities risk_score priority) db = Some assignee \<Longrightarrow>
   route_document lower now server_now document_id doc_type confidence entities risk_score priority db
     = (Some \<lparr>res_assignment_id = assignment_seq db + 1,
              res_assigned_to = as_username assignee,
              res_user_id = as_user_id assignee,
              res_routing_reason = ''Matched rule: '' @
                 rule_name (select_rule lower (active_rules db)
                   (document_context doc_type confidence entities risk_score priority) doc_type),
              res_priority = priority,
              res_due_date = Some (calculate_due_date now priority doc_type)\<rparr>,
        db\<lparr>assignments := assignments db @
              [\<lparr>a_id = assignment_seq db + 1, a_doc_id = document_id,
                a_user_id = as_user_id assignee,
                a_assigned_by = ''routing_engine'', a_status = ''assigned'',
                a_priority = priority,
                a_due_date = Some (calculate_due_date now priority doc_type),
                a_completed_at = None, a_created_at = server_now\<rparr>],
            assignment_seq := assignment_seq db + 1\<rparr>)"
  by (simp add: route_document_def Let_def add_assignment_def)

lemma route_document_assign:
  "route_document lower now server_now document_id doc_type confidence entities risk_score priority db
     = assign_under_rule
         (select_rule lower (active_rules db)
            (document_context doc_type confidence entities risk_score priority) doc_type)
         now server_now document_id doc_type priority
         (document_context doc_type confidence entities risk_score priority) db"
  by (simp add: route_document_def assign_under_rule_def Let_def)

lemma route_document_cases:
  "(available_users db = [] \<and>
    route_document lower now server_now document_id doc_type confidence entities risk_score priority db
      = (None, db)) \<or>
   (available_users db \<noteq> [] \<and>
    (\<exists>res a. route_document lower now server_now document_id doc_type confidence entities risk_score
               priority db
        = (Some res, db\<lparr>assignments := assignments db @ [a],
                         assignment_seq := assignment_seq db + 1\<rparr>) \<and>
       a_id a = assignment_seq db + 1 \<and> a_doc_id a = document_id \<and>
       a_status a = ''assigned'' \<and> res_assignment_id res = a_id a))"
proof (cases "available_users db = []")
  case True
  then show ?thesis
    by (simp add: route_document_def Let_def find_best_assignee_def)
next
  case False
  let ?ctx = "document_context doc_type confidence entities risk_score priority"
  let ?rule = "select_rule lower (active_rules db) ?ctx doc_type"
  from False have "find_best_assignee ?rule ?ctx db \<noteq> None"
    by (simp add: find_best_assignee_None_iff)
  then obtain assignee where "find_best_assignee ?rule ?ctx db = Some assignee" by blast
  from route_document_Some[OF this, of now server_now document_id] False show ?thesis
    by (intro disjI2 conjI exI) (assumption, assumption, simp_all)
qed

section \<open>Lemmas: due date\<close>

lemma round_double_modifiers:
  "round_double (5 / 10) = 1 / 2" "round_double 1 = 1" "round_double (15 / 10) = 3 / 2"
  by code_simp+

lemma due_core:
  "b \<in> {2, 8, 24, 72, 168} \<Longrightarrow> m \<in> {5 / 10, 7 / 10, 8 / 10, 1, 12 / 10, 15 / 10} \<Longrightarrow>
   of_int (timedelta_hours (float_mul b (round_double m))) = b * m * 3600000000"
  apply (elim insertE emptyE)
  apply (hypsubst, code_simp)+
  done

lemma claimed_base_hours_range: "claimed_base_hours p \<in> {2, 8, 24, 72, 168}"
  by (simp add: claimed_base_hours_def)

lemma base_hours_lookup:
  "of_int (case map_of priority_hours p of None \<Rightarrow> 72 | Some h \<Rightarrow> h) = claimed_base_hours p"
  by (simp add: priority_hours_def claimed_base_hours_def)

lemma claimed_modifier_range:
  "claimed_modifier t \<in> {5 / 10, 7 / 10, 8 / 10, 1, 12 / 10, 15 / 10}"
  by (simp add: claimed_modifier_def)

lemma modifier_lookup:
  "(case map_of type_modifiers t of None \<Rightarrow> 1 | Some m \<Rightarrow> m) = round_double (claimed_modifier t)"
  by (simp add: type_modifiers_def claimed_modifier_def round_double_modifiers)

section \<open>Rule selection\<close>

text \<open>
  C1. For every list of active rules, ordered by descending priority, and every document
  context, routing selects the first rule of the list whose condition evaluates to true,
  whatever rules come after it. The list that \<open>route_document\<close> scans is
  \<open>active_rules db\<close>: the selected rule has a priority no lower than any matching active
  rule, so when a priority-5 rule and a priority-3 rule are the active rules and both match,
  the priority-5 rule is selected; the rule found is the one the routing result names.
\<close>

theorem first_matching_rule_selected:
  "(find_matching_rule lower rule_list ctx = Some rule \<longleftrightarrow>
      (\<exists>before after. rule_list = before @ rule # after \<and>
         (\<forall>r\<in>set before. \<not> evaluate_rule_condition lower (r_condition r) ctx) \<and>
         evaluate_rule_condition lower (r_condition rule) ctx)) \<and>
   (r \<in> set (active_rules db) \<and> evaluate_rule_condition lower (r_condition r) ctx \<longrightarrow>
      (\<exists>selected. select_rule lower (active_rules db) ctx doc_type = Stored selected \<and>
         r_priority r \<le> r_priority selected)) \<and>
   (set (active_rules db) = {r5, r3} \<and> r_priority r5 = 5 \<and> r_priority r3 = 3 \<and>
    evaluate_rule_condition lower (r_condition r5) ctx \<and>
    evaluate_rule_condition lower (r_condition r3) ctx \<longrightarrow>
      select_rule lower (active_rules db) ctx doc_type = Stored r5) \<and>
   (find_matching_rule lower (active_rules db)
      (document_context doc_type confidence entities risk_score priority) = Some rule \<and>
    available_users db \<noteq> [] \<longrightarrow>
      (\<exists>res db'. route_document lower now server_now document_id doc_type confidence entities
                    risk_score priority db = (Some res, db') \<and>
         res_routing_reason res = ''Matched rule: '' @ r_name rule))"
proof (intro conjI impI)
  show "find_matching_rule lower rule_list ctx = Some rule \<longleftrightarrow>
      (\<exists>before after. rule_list = before @ rule # after \<and>
         (\<forall>r\<in>set before. \<not> evaluate_rule_condition lower (r_condition r) ctx) \<and>
         evaluate_rule_condition lower (r_condition rule) ctx)"
    by (rule find_matching_rule_Some_iff)
next
  assume "r \<in> set (active_rules db) \<and> evaluate_rule_condition lower (r_condition r) ctx"
  with find_matching_rule_priority[OF active_rules_sorted, of r db lower "ctx"]
  show "\<exists>selected. select_rule lower (active_rules db) ctx doc_type = Stored selected \<and>
         r_priority r \<le> r_priority selected"
    by (auto simp: select_rule_def)
next
  assume h: "set (active_rules db) = {r5, r3} \<and> r_priority r5 = 5 \<and> r_priority r3 = 3 \<and>
    evaluate_rule_condition lower (r_condition r5) ctx \<and>
    evaluate_rule_condition lower (r_condition r3) ctx"
  then have "r5 \<in> set (active_rules db)" by simp
  with h find_matching_rule_priority[OF active_rules_sorted, of r5 db lower "ctx"]
  obtain selected where s: "find_matching_rule lower (active_rules db) ctx = Some selected"
    "r_priority r5 \<le> r_priority selected" by blast
  from s(1) have "selected \<in> set (active_rules db)"
    by (auto simp: find_matching_rule_Some_iff)
  with h s(2) have "selected = r5" by auto
  with s(1) show "select_rule lower (active_rules db) ctx doc_type = Stored r5"
    by (simp add: select_rule_def)
next
  let ?ctx = "document_context doc_type confidence entities risk_score priority"
  assume h: "find_matching_rule lower (active_rules db) ?ctx = Some rule \<and> available_users db \<noteq> []"
  then have sel: "select_rule lower (active_rules db) ?ctx doc_type = Stored rule"
    by (simp add: select_rule_def)
  from h have "find_best_assignee (select_rule lower (active_rules db) ?ctx doc_type) ?ctx db \<noteq> None"
    by (simp add: find_best_assignee_None_iff)
  then obtain assignee where
    "find_best_assignee (select_rule lower (active_rules db) ?ctx doc_type) ?ctx db = Some assignee"
    by blast
  from route_document_Some[OF this, of now server_now document_id] sel
  show "\<exists>res db'. route_document lower now server_now document_id doc_type confidence entities
                    risk_score priority db = (Some res, db') \<and>
         res_routing_reason res = ''Matched rule: '' @ r_name rule"
    by simp
qed

text \<open>In the example database the priority-3 rule is stored first and both rules match a
  risky contract; the priority-5 rule is selected.\<close>

theorem first_matching_rule_selected_witness:
  "set (active_rules ex_db) = {ex_rule_risky, ex_rule_contracts} \<and>
   r_priority ex_rule_risky = 5 \<and> r_priority ex_rule_contracts = 3 \<and>
   evaluate_rule_condition ascii_lower (r_condition ex_rule_risky)
     (document_context ''contract'' (7 / 8) [] (3 / 4) 4) \<and>
   evaluate_rule_condition ascii_lower (r_condition ex_rule_contracts)
     (document_context ''contract'' (7 / 8) [] (3 / 4) 4) \<and>
   select_rule ascii_lower (active_rules ex_db) (document_context ''contract'' (7 / 8) [] (3 / 4) 4)
     ''contract'' = Stored ex_rule_risky"
proof -
  have a: "active_rules ex_db = [ex_rule_risky, ex_rule_contracts]" by code_simp
  have h: "set (active_rules ex_db) = {ex_rule_risky, ex_rule_contracts} \<and>
     r_priority ex_rule_risky = 5 \<and> r_priority ex_rule_contracts = 3 \<and>
     evaluate_rule_condition ascii_lower (r_condition ex_rule_risky)
       (document_context ''contract'' (7 / 8) [] (3 / 4) 4) \<and>
     evaluate_rule_condition ascii_lower (r_condition ex_rule_contracts)
       (document_context ''contract'' (7 / 8) [] (3 / 4) 4)"
    unfolding a by (intro conjI, simp) code_simp+
  with first_matching_rule_selected[where lower = ascii_lower and db = ex_db and ?r5.0 = ex_rule_risky
      and ?r3.0 = ex_rule_contracts
      and ctx = "document_context ''contract'' (7 / 8) [] (3 / 4) 4"
      and doc_type = "''contract''"]
  show ?thesis by blast
qed

section \<open>Condition evaluation against its specification\<close>

text \<open>
  C2. The evaluator is to return true if and only if every constraint whose field is
  present in the context is satisfied, where a nested object is satisfied when all of
  \<open>gt\<close>, \<open>lt\<close>, \<open>gte\<close>, \<open>lte\<close> and \<open>contains\<close> hold; a field absent from the context
  is skipped. The code agrees (lemmas \<open>evaluate_rule_condition_claimed\<close> and
  \<open>absent_field_skipped\<close>) except where \<open>contains\<close> meets a context value that is neither
  a string nor a list: lines 135--146 have no \<open>else\<close> branch, unlike the plain-string
  branch (lines 110--111), and the constraint passes. The rule below requires the
  priority to contain \<open>urgent\<close>; the priority of the document is the number 3, and the
  rule matches.
\<close>

theorem contains_on_number_matches:
  "evaluate_rule_condition lower (PDict [(''priority'', PDict [(''contains'', PStr ''urgent'')])])
     (document_context ''invoice'' (7 / 8) [] (1 / 8) 3) \<and>
   \<not> claimed_string_match lower ''urgent'' (PInt 3) \<and>
   \<not> claimed_evaluate lower [(''priority'', PDict [(''contains'', PStr ''urgent'')])]
        (document_context ''invoice'' (7 / 8) [] (1 / 8) 3)"
  by code_simp

section \<open>Candidate pool\<close>

text \<open>
  C3, as stated: a rule that names a team gives the active workers whose department equals
  the team name with a \<open>-team\<close> suffix stripped. The code removes every occurrence of
  \<open>-team\<close> instead (\<open>replace('-team', '')\<close>), so the statement fails for the team
  \<open>support-team-2\<close>: the pool is the department \<open>support-2\<close>, not \<open>support-team-2\<close>.
\<close>

theorem team_suffix_counterexample:
  "candidate_pool (Stored ex_rule_support) ex_db_support = [ex_carol] \<and>
   claimed_team_pool ''support-team-2'' ex_db_support = [ex_dave]"
  by code_simp

text \<open>
  C3, amended: the candidate pool is built in this order of preference. (1) If the rule's
  assignee field is the username of an active worker, the pool is exactly that worker.
  (2) Otherwise the pool is the active workers whose department equals the assignee field
  with every occurrence of \<open>-team\<close> removed, or, when there are none, those whose
  department equals the team field with every occurrence of \<open>-team\<close> removed.
  (3) When that yields nobody, the pool is all active workers.
\<close>

theorem candidate_pool_preference:
  "candidate_pool rule db =
     (case named_worker rule db of
        Some worker \<Rightarrow> [worker]
      | None \<Rightarrow>
          if team_pool (rule_assignee rule) db \<noteq> [] then team_pool (rule_assignee rule) db
          else if team_pool (rule_team rule) db \<noteq> [] then team_pool (rule_team rule) db
          else available_users db)"
proof (cases "rule_assignee rule")
  case None
  then have a: "candidates_by_assignee rule db = []" "named_worker rule db = None"
    "team_pool (rule_assignee rule) db = []"
    by (simp_all add: candidates_by_assignee_def named_worker_def team_pool_def)
  show ?thesis
  proof (cases "rule_team rule")
    case None
    with a show ?thesis
      by (simp add: candidate_pool_def candidates_by_team_def team_pool_def)
  next
    case (Some t)
    with a show ?thesis
      by (cases "t = []")
         (simp_all add: candidate_pool_def candidates_by_team_def team_pool_users_in_department,
          simp add: team_pool_def)
  qed
next
  case (Some n)
  note n = this
  show ?thesis
  proof (cases "n = []")
    case True
    with n have a: "candidates_by_assignee rule db = []" "named_worker rule db = None"
      "team_pool (rule_assignee rule) db = []"
      by (simp_all add: candidates_by_assignee_def named_worker_def team_pool_def
          split: option.splits)
    show ?thesis
    proof (cases "rule_team rule")
      case None
      with a show ?thesis
        by (simp add: candidate_pool_def candidates_by_team_def team_pool_def)
    next
      case (Some t)
      with a show ?thesis
        by (cases "t = []")
           (simp_all add: candidate_pool_def candidates_by_team_def team_pool_users_in_department,
            simp add: team_pool_def)
    qed
  next
    case False
    note ne = this
    show ?thesis
    proof (cases "named_worker rule db")
      case (Some w)
      with n ne have "candidates_by_assignee rule db = [w]"
        by (auto simp: candidates_by_assignee_def named_worker_def split: option.splits if_splits)
      with Some show ?thesis
        by (simp add: candidate_pool_def candidates_by_team_def split: option.splits)
    next
      case None
      with n ne have a: "candidates_by_assignee rule db = team_pool (rule_assignee rule) db"
        by (auto simp: candidates_by_assignee_def named_worker_def team_pool_users_in_department
            split: option.splits if_splits)
      show ?thesis
      proof (cases "rule_team rule")
        case None
        with a \<open>named_worker rule db = None\<close> show ?thesis
          by (simp add: candidate_pool_def candidates_by_team_def team_pool_def)
      next
        case (Some t)
        with a \<open>named_worker rule db = None\<close> show ?thesis
          by (cases "t = []")
             (simp_all add: candidate_pool_def candidates_by_team_def
                team_pool_users_in_department, simp add: team_pool_def)
      qed
    qed
  qed
qed

text \<open>The three steps on examples: a rule naming the active worker alice; the default
  rule for contracts, whose \<open>legal-team\<close> is the department \<open>legal\<close>; the team
  \<open>support-team-2\<close>, read as the department \<open>support-2\<close>; a team without workers, which
  widens the pool to all active workers.\<close>

theorem candidate_pool_preference_witness:
  "str_remove ''-team'' ''legal-team'' = ''legal'' \<and>
   str_remove ''-team'' ''support-team-2'' = ''support-2'' \<and>
   named_worker (Stored (ex_rule_support\<lparr>r_assignee := Some ''alice''\<rparr>)) ex_db_support
     = Some ex_alice \<and>
   candidate_pool (Stored (ex_rule_support\<lparr>r_assignee := Some ''alice''\<rparr>)) ex_db_support
     = [ex_alice] \<and>
   named_worker (Default (get_default_routing_rule ''contract'')) ex_db = None \<and>
   team_pool (Some ''legal-team'') ex_db = [ex_alice] \<and>
   candidate_pool (Default (get_default_routing_rule ''contract'')) ex_db = [ex_alice] \<and>
   team_pool (Some ''support-team-2'') ex_db_support = [ex_carol] \<and>
   candidate_pool (Stored ex_rule_support) ex_db_support = [ex_carol] \<and>
   team_pool (Some ''support-team-2'') ex_db = [] \<and>
   candidate_pool (Stored ex_rule_support) ex_db = [ex_bob, ex_alice]"
proof -
  have "str_remove ''-team'' ''legal-team'' = ''legal''"
    "str_remove ''-team'' ''support-team-2'' = ''support-2''"
    "named_worker (Stored (ex_rule_support\<lparr>r_assignee := Some ''alice''\<rparr>)) ex_db_support
          = Some ex_alice"
    "named_worker (Default (get_default_routing_rule ''contract'')) ex_db = None"
    "team_pool (rule_assignee (Default (get_default_routing_rule ''contract''))) ex_db
       = [ex_alice]"
    "team_pool (Some ''legal-team'') ex_db = [ex_alice]"
    "named_worker (Stored ex_rule_support) ex_db_support = None"
    "team_pool (rule_assignee (Stored ex_rule_support)) ex_db_support = []"
    "team_pool (rule_team (Stored ex_rule_support)) ex_db_support = [ex_carol]"
    "team_pool (Some ''support-team-2'') ex_db_support = [ex_carol]"
    "named_worker (Stored ex_rule_support) ex_db = None"
    "team_pool (rule_assignee (Stored ex_rule_support)) ex_db = []"
    "team_pool (rule_team (Stored ex_rule_support)) ex_db = []"
    "team_pool (Some ''support-team-2'') ex_db = []"
    "available_users ex_db = [ex_bob, ex_alice]"
    by code_simp+
  then show ?thesis
    using candidate_pool_preference[of "Stored (ex_rule_support\<lparr>r_assignee := Some ''alice''\<rparr>)"
        ex_db_support]
      candidate_pool_preference[of "Default (get_default_routing_rule ''contract'')" ex_db]
      candidate_pool_preference[of "Stored ex_rule_support" ex_db_support]
      candidate_pool_preference[of "Stored ex_rule_support" ex_db]
    by simp
qed

section \<open>Choice of the assignee\<close>



section \<open>Default routing\<close>

text \<open>
  C5. For every document whose context matches no active rule, in particular under an
  empty rule set, \<open>route_document\<close> goes on with a synthesized rule of priority 1 whose
  team (and assignee) comes from the built-in mapping: contract to \<open>legal-team\<close>, invoice
  to \<open>finance-team\<close>, hr to \<open>hr-team\<close>, technical to \<open>engineering-team\<close>, report to
  \<open>management-team\<close>, correspondence to \<open>admin-team\<close>, and every type the mapping does
  not hold to \<open>admin-team\<close>. The document is then assigned within that team: when no
  worker carries the team's name as username and the team's department (\<open>legal\<close> for
  \<open>legal-team\<close>, \<open>admin\<close> for \<open>admin-team\<close>) has an active worker, the assignee is an
  active worker of that department.
\<close>

theorem default_rule_fallback:
  "((\<forall>r\<in>set (active_rules db).
        \<not> evaluate_rule_condition lower (r_condition r)
            (document_context doc_type confidence entities risk_score priority)) \<longrightarrow>
      route_document lower now server_now document_id doc_type confidence entities risk_score
          priority db
        = assign_under_rule (Default (get_default_routing_rule doc_type)) now server_now
            document_id doc_type priority
            (document_context doc_type confidence entities risk_score priority) db) \<and>
   (rules db = [] \<longrightarrow>
      route_document lower now server_now document_id doc_type confidence entities risk_score
          priority db
        = assign_under_rule (Default (get_default_routing_rule doc_type)) now server_now
            document_id doc_type priority
            (document_context doc_type confidence entities risk_score priority) db) \<and>
   d_priority (get_default_routing_rule doc_type) = 1 \<and>
   d_assignee (get_default_routing_rule doc_type) = d_team (get_default_routing_rule doc_type) \<and>
   d_team (get_default_routing_rule ''contract'') = ''legal-team'' \<and>
   d_team (get_default_routing_rule ''invoice'') = ''finance-team'' \<and>
   d_team (get_default_routing_rule ''hr'') = ''hr-team'' \<and>
   d_team (get_default_routing_rule ''technical'') = ''engineering-team'' \<and>
   d_team (get_default_routing_rule ''report'') = ''management-team'' \<and>
   d_team (get_default_routing_rule ''correspondence'') = ''admin-team'' \<and>
   (map_of default_mappings doc_type = None \<longrightarrow>
      d_team (get_default_routing_rule doc_type) = ''admin-team'') \<and>
   ((\<forall>r\<in>set (active_rules db).
        \<not> evaluate_rule_condition lower (r_condition r)
            (document_context doc_type confidence entities risk_score priority)) \<and>
    find (\<lambda>u. u_username u = d_team (get_default_routing_rule doc_type)) (users db) = None \<and>
    users_in_department (str_remove ''-team'' (d_team (get_default_routing_rule doc_type))) db
      \<noteq> [] \<longrightarrow>
      (\<exists>res db' worker.
         route_document lower now server_now document_id doc_type confidence entities risk_score
           priority db = (Some res, db') \<and>
         worker \<in> set (users_in_department
                         (str_remove ''-team'' (d_team (get_default_routing_rule doc_type))) db) \<and>
         res_user_id res = u_id worker \<and> res_assigned_to res = u_username worker \<and>
         res_routing_reason res = ''Matched rule: Default rule for '' @ doc_type)) \<and>
   str_remove ''-team'' ''legal-team'' = ''legal'' \<and>
   str_remove ''-team'' ''admin-team'' = ''admin''"
proof (intro conjI impI)
  let ?ctx = "document_context doc_type confidence entities risk_score priority"
  let ?d = "get_default_routing_rule doc_type"
  {
    assume "\<forall>r\<in>set (active_rules db). \<not> evaluate_rule_condition lower (r_condition r) ?ctx"
    then have "find_matching_rule lower (active_rules db) ?ctx = None"
      by (simp add: find_matching_rule_None_iff)
    then have "select_rule lower (active_rules db) ?ctx doc_type = Default ?d"
      by (simp add: select_rule_def)
    then show "route_document lower now server_now document_id doc_type confidence entities risk_score
          priority db
        = assign_under_rule (Default ?d) now server_now document_id doc_type priority ?ctx db"
      by (simp add: route_document_assign)
  }
  {
    assume "rules db = []"
    then have "select_rule lower (active_rules db) ?ctx doc_type = Default ?d"
      by (simp add: select_rule_def active_rules_def)
    then show "route_document lower now server_now document_id doc_type confidence entities risk_score
          priority db
        = assign_under_rule (Default ?d) now server_now document_id doc_type priority ?ctx db"
      by (simp add: route_document_assign)
  }
  {
    assume "map_of default_mappings doc_type = None"
    then show "d_team ?d = ''admin-team''"
      by (simp add: get_default_routing_rule_def Let_def)
  }
  {
    assume h: "(\<forall>r\<in>set (active_rules db). \<not> evaluate_rule_condition lower (r_condition r) ?ctx) \<and>
      find (\<lambda>u. u_username u = d_team ?d) (users db) = None \<and>
      users_in_department (str_remove ''-team'' (d_team ?d)) db \<noteq> []"
    then have "find_matching_rule lower (active_rules db) ?ctx = None"
      by (simp add: find_matching_rule_None_iff)
    then have sel: "select_rule lower (active_rules db) ?ctx doc_type = Default ?d"
      by (simp add: select_rule_def)
    have same: "d_assignee ?d = d_team ?d" by (simp add: get_default_routing_rule_def Let_def)
    have nonempty: "d_assignee ?d \<noteq> []"
      by (simp add: get_default_routing_rule_def default_mappings_def Let_def)
    from h same have pool: "candidate_pool (Default ?d) db
        = users_in_department (str_remove ''-team'' (d_team ?d)) db"
      using default_rule_pool[of ?d db] nonempty by simp
    with h have ne: "candidate_pool (Default ?d) db \<noteq> []" by simp
    from find_best_assignee_member[OF ne, of ?ctx] pool obtain worker w where w:
      "worker \<in> set (users_in_department (str_remove ''-team'' (d_team ?d)) db)"
      "find_best_assignee (Default ?d) ?ctx db
         = Some \<lparr>as_user_id = u_id worker, as_username = u_username worker,
                 as_current_workload = w\<rparr>"
      by auto
    from w(2) sel have "find_best_assignee (select_rule lower (active_rules db) ?ctx doc_type) ?ctx db
         = Some \<lparr>as_user_id = u_id worker, as_username = u_username worker,
                 as_current_workload = w\<rparr>" by simp
    from route_document_Some[OF this, of now server_now document_id] sel w(1)
    show "\<exists>res db' worker.
         route_document lower now server_now document_id doc_type confidence entities risk_score
           priority db = (Some res, db') \<and>
         worker \<in> set (users_in_department (str_remove ''-team'' (d_team ?d)) db) \<and>
         res_user_id res = u_id worker \<and> res_assigned_to res = u_username worker \<and>
         res_routing_reason res = ''Matched rule: Default rule for '' @ doc_type"
      by (auto simp: get_default_routing_rule_def Let_def)
  }
  show "str_remove ''-team'' ''legal-team'' = ''legal''" by code_simp
  show "str_remove ''-team'' ''admin-team'' = ''admin''" by code_simp
qed (simp_all add: get_default_routing_rule_def default_mappings_def Let_def)

text \<open>No rule of the example database matches an invoice: it goes to bob, the worker of
  the finance department. With no rule stored, a contract goes to alice in the legal
  department, bob's lighter load notwithstanding, and a memo, which the mapping does not
  hold, gets \<open>admin-team\<close>.\<close>

theorem default_rule_fallback_witness:
  "active_rules ex_db = [ex_rule_risky, ex_rule_contracts] \<and>
   list_all (\<lambda>r. \<not> evaluate_rule_condition ascii_lower (r_condition r)
                      (document_context ''invoice'' (7 / 8) [] (1 / 8) 3))
            (active_rules ex_db) \<and>
   find (\<lambda>u. u_username u = d_team (get_default_routing_rule ''invoice'')) (users ex_db)
     = None \<and>
   users_in_department (str_remove ''-team'' (d_team (get_default_routing_rule ''invoice'')))
     ex_db = [ex_bob] \<and>
   route_document ascii_lower 1000 1001 ''doc-2'' ''invoice'' (7 / 8) [] (1 / 8) 3 ex_db
     = assign_under_rule (Default (get_default_routing_rule ''invoice'')) 1000 1001 ''doc-2''
         ''invoice'' 3 (document_context ''invoice'' (7 / 8) [] (1 / 8) 3) ex_db \<and>
   map_option res_assigned_to
     (fst (route_document ascii_lower 1000 1001 ''doc-2'' ''invoice'' (7 / 8) [] (1 / 8) 3 ex_db))
     = Some ''bob'' \<and>
   rules (ex_db\<lparr>rules := []\<rparr>) = [] \<and>
   route_document ascii_lower 1000 1001 ''doc-3'' ''contract'' (7 / 8) [] (1 / 8) 3 (ex_db\<lparr>rules := []\<rparr>)
     = assign_under_rule (Default (get_default_routing_rule ''contract'')) 1000 1001 ''doc-3''
         ''contract'' 3 (document_context ''contract'' (7 / 8) [] (1 / 8) 3)
         (ex_db\<lparr>rules := []\<rparr>) \<and>
   map_option res_assigned_to
     (fst (route_document ascii_lower 1000 1001 ''doc-3'' ''contract'' (7 / 8) [] (1 / 8) 3
             (ex_db\<lparr>rules := []\<rparr>)))
     = Some ''alice'' \<and>
   map_of default_mappings ''memo'' = None \<and>
   d_team (get_default_routing_rule ''memo'') = ''admin-team''"
proof -
  have h: "active_rules ex_db = [ex_rule_risky, ex_rule_contracts] \<and>
   list_all (\<lambda>r. \<not> evaluate_rule_condition ascii_lower (r_condition r)
                      (document_context ''invoice'' (7 / 8) [] (1 / 8) 3))
            (active_rules ex_db) \<and>
   find (\<lambda>u. u_username u = d_team (get_default_routing_rule ''invoice'')) (users ex_db)
     = None \<and>
   users_in_department (str_remove ''-team'' (d_team (get_default_routing_rule ''invoice'')))
     ex_db = [ex_bob] \<and>
   rules (ex_db\<lparr>rules := []\<rparr>) = [] \<and>
   map_of default_mappings ''memo'' = None"
    by code_simp
  then have all: "\<forall>r\<in>set (active_rules ex_db).
      \<not> evaluate_rule_condition ascii_lower (r_condition r)
          (document_context ''invoice'' (7 / 8) [] (1 / 8) 3)"
    by (simp add: list_all_iff)
  have e: "map_option res_assigned_to
     (fst (route_document ascii_lower 1000 1001 ''doc-2'' ''invoice'' (7 / 8) [] (1 / 8) 3 ex_db))
     = Some ''bob'' \<and>
   map_option res_assigned_to
     (fst (route_document ascii_lower 1000 1001 ''doc-3'' ''contract'' (7 / 8) [] (1 / 8) 3
             (ex_db\<lparr>rules := []\<rparr>)))
     = Some ''alice''"
    by code_simp
  from h all e
    default_rule_fallback[where lower = ascii_lower and db = ex_db and now = 1000
      and server_now = 1001 and document_id = "''doc-2''" and doc_type = "''invoice''"
      and confidence = "7 / 8" and entities = "[]" and risk_score = "1 / 8" and priority = 3]
    default_rule_fallback[where lower = ascii_lower and db = "ex_db\<lparr>rules := []\<rparr>" and now = 1000
      and server_now = 1001 and document_id = "''doc-3''" and doc_type = "''contract''"
      and confidence = "7 / 8" and entities = "[]" and risk_score = "1 / 8" and priority = 3]
    default_rule_fallback[where lower = ascii_lower and doc_type = "''memo''"]
  show ?thesis by blast
qed

section \<open>Due date calculation\<close>

text \<open>
  C6. For every priority, document type and current time, the due date is the current
  time plus base hours times modifier, in hours: the offset in microseconds is exactly
  \<open>base_hours * modifier * 3600000000\<close>, with base hours 2, 8, 24, 72, 168 for the
  priorities 5 to 1 (72 for any other priority) and the decimal modifiers of the table
  (1 for any other type). The products are computed in floating point, and the rounding
  to whole microseconds absorbs every rounding error. Priority 5 with type \<open>legal\<close>
  gives one hour, priority 1 with type \<open>report\<close> gives 252 hours.
\<close>

theorem due_date_base_times_modifier:
  "of_int (calculate_due_date now priority doc_type - now)
     = claimed_base_hours priority * claimed_modifier doc_type * 3600000000 \<and>
   calculate_due_date now 5 ''legal'' = now + 1 * 3600000000 \<and>
   calculate_due_date now 1 ''report'' = now + 252 * 3600000000"
proof -
  have offset: "of_int (calculate_due_date t p d - t)
      = claimed_base_hours p * claimed_modifier d * 3600000000" for t p d
  proof -
    have "of_int (calculate_due_date t p d - t)
        = (of_int (timedelta_hours (float_mul (claimed_base_hours p)
              (round_double (claimed_modifier d)))) :: rat)"
      by (simp add: calculate_due_date_def Let_def base_hours_lookup modifier_lookup)
    also have "\<dots> = claimed_base_hours p * claimed_modifier d * 3600000000"
      by (rule due_core[OF claimed_base_hours_range claimed_modifier_range])
    finally show ?thesis .
  qed
  have "(of_int (calculate_due_date now 5 ''legal'' - now) :: rat) = of_int 3600000000"
    unfolding offset by (simp add: claimed_base_hours_def claimed_modifier_def)
  then have "calculate_due_date now 5 ''legal'' - now = 3600000000"
    by (simp only: of_int_eq_iff)
  then have legal: "calculate_due_date now 5 ''legal'' = now + 1 * 3600000000" by simp
  have "(of_int (calculate_due_date now 1 ''report'' - now) :: rat)
      = of_int (252 * 3600000000)"
    unfolding offset by (simp add: claimed_base_hours_def claimed_modifier_def)
  then have "calculate_due_date now 1 ''report'' - now = 252 * 3600000000"
    by (simp only: of_int_eq_iff)
  then have report: "calculate_due_date now 1 ''report'' = now + 252 * 3600000000" by simp
  from offset legal report show ?thesis by blast
qed

section \<open>Routing outcomes\<close>

text \<open>
  C7. Whenever the assignee selection yields no candidate, \<open>route_document\<close> returns
  \<open>None\<close> and leaves the database as it was: no assignment is created. This is the case
  exactly when no worker is active, in particular when every worker is inactive.
\<close>

theorem no_candidate_no_assignment:
  "(find_best_assignee
      (select_rule lower (active_rules db)
         (document_context doc_type confidence entities risk_score priority) doc_type)
      (document_context doc_type confidence entities risk_score priority) db = None \<longrightarrow>
    route_document lower now server_now document_id doc_type confidence entities risk_score priority db
      = (None, db)) \<and>
   ((\<forall>u\<in>set (users db). \<not> u_is_active u) \<longrightarrow>
    route_document lower now server_now document_id doc_type confidence entities risk_score priority db
      = (None, db)) \<and>
   (fst (route_document lower now server_now document_id doc_type confidence entities risk_score
           priority db) = None \<longrightarrow>
    snd (route_document lower now server_now document_id doc_type confidence entities risk_score
           priority db) = db)"
proof (intro conjI impI)
  assume "find_best_assignee
      (select_rule lower (active_rules db)
         (document_context doc_type confidence entities risk_score priority) doc_type)
      (document_context doc_type confidence entities risk_score priority) db = None"
  then show "route_document lower now server_now document_id doc_type confidence entities risk_score
      priority db = (None, db)"
    by (rule route_document_None)
next
  assume "\<forall>u\<in>set (users db). \<not> u_is_active u"
  then have "available_users db = []"
    by (simp add: available_users_def filter_empty_conv)
  then have "find_best_assignee
      (select_rule lower (active_rules db)
         (document_context doc_type confidence entities risk_score priority) doc_type)
      (document_context doc_type confidence entities risk_score priority) db = None"
    by (simp add: find_best_assignee_None_iff)
  then show "route_document lower now server_now document_id doc_type confidence entities risk_score
      priority db = (None, db)"
    by (rule route_document_None)
next
  assume "fst (route_document lower now server_now document_id doc_type confidence entities risk_score
           priority db) = None"
  with route_document_cases[of db lower now server_now document_id doc_type confidence entities
      risk_score priority]
  show "snd (route_document lower now server_now document_id doc_type confidence entities risk_score
           priority db) = db"
    by auto
qed

text \<open>A database whose workers are all inactive: routing a contract returns \<open>None\<close> and
  the database, with its one earlier assignment, is unchanged.\<close>

theorem no_candidate_no_assignment_witness:
  "list_all (\<lambda>u. \<not> u_is_active u) (users ex_db_inactive) \<and>
   route_document ascii_lower 1000 1001 ''doc-1'' ''contract'' (7 / 8) [] (3 / 4) 4 ex_db_inactive
     = (None, ex_db_inactive)"
proof -
  have h: "list_all (\<lambda>u. \<not> u_is_active u) (users ex_db_inactive)"
    by code_simp
  then have "\<forall>u\<in>set (users ex_db_inactive). \<not> u_is_active u"
    by (simp add: list_all_iff)
  with h no_candidate_no_assignment[where lower = ascii_lower and db = ex_db_inactive and now = 1000
      and server_now = 1001 and document_id = "''doc-1''" and doc_type = "''contract''"
      and confidence = "7 / 8" and entities = "[]" and risk_score = "3 / 4" and priority = 4]
  show ?thesis by blast
qed

text \<open>
  C8. Routing the same document twice creates two assignments for it. If a first call of
  \<open>route_document\<close> for a document finds an assignee, a second call for the same
  \<open>document_id\<close> on the resulting database finds one as well, whatever its other
  arguments (nothing checks whether the document is already assigned), and afterwards
  the assignment table holds two new rows: both for that document, both in status
  \<open>assigned\<close>, with different ids, the ids the two results report.
\<close>

theorem routing_twice_creates_two_assignments:
  assumes "route_document lower now1 server_now1 document_id doc_type1 confidence1 entities1
             risk_score1 priority1 db = (Some res1, db1)"
  shows "\<exists>res2 db2 a1 a2.
           route_document lower now2 server_now2 document_id doc_type2 confidence2 entities2
             risk_score2 priority2 db1 = (Some res2, db2) \<and>
           assignments db1 = assignments db @ [a1] \<and>
           assignments db2 = assignments db @ [a1, a2] \<and>
           a_doc_id a1 = document_id \<and> a_doc_id a2 = document_id \<and>
           a_status a1 = ''assigned'' \<and> a_status a2 = ''assigned'' \<and>
           a_id a1 \<noteq> a_id a2 \<and>
           res_assignment_id res1 = a_id a1 \<and> res_assignment_id res2 = a_id a2"
proof -
  from assms route_document_cases[of db lower now1 server_now1 document_id doc_type1 confidence1
      entities1 risk_score1 priority1]
  obtain a1 where first: "available_users db \<noteq> []"
    "db1 = db\<lparr>assignments := assignments db @ [a1], assignment_seq := assignment_seq db + 1\<rparr>"
    "a_id a1 = assignment_seq db + 1" "a_doc_id a1 = document_id"
    "a_status a1 = ''assigned''" "res_assignment_id res1 = a_id a1"
    by auto
  from first(1,2) have "available_users db1 \<noteq> []"
    by (simp add: available_users_def)
  with route_document_cases[of db1 lower now2 server_now2 document_id doc_type2 confidence2
      entities2 risk_score2 priority2]
  obtain res2 a2 where second:
    "route_document lower now2 server_now2 document_id doc_type2 confidence2 entities2 risk_score2
       priority2 db1
     = (Some res2, db1\<lparr>assignments := assignments db1 @ [a2],
                       assignment_seq := assignment_seq db1 + 1\<rparr>)"
    "a_id a2 = assignment_seq db1 + 1" "a_doc_id a2 = document_id"
    "a_status a2 = ''assigned''" "res_assignment_id res2 = a_id a2"
    by auto
  from first(2,3) second(2) have "a_id a1 \<noteq> a_id a2" by simp
  moreover from first(2) have "assignments db1 = assignments db @ [a1]" by simp
  moreover from first(2) have
    "assignments (db1\<lparr>assignments := assignments db1 @ [a2],
                      assignment_seq := assignment_seq db1 + 1\<rparr>) = assignments db @ [a1, a2]"
    by simp
  ultimately show ?thesis
    using first(4,5,6) second(1,3,4,5) by blast
qed

text \<open>Routing one contract twice on the example database: the second call succeeds and
  the table grows by two rows for the document, with the ids 1 and 2.\<close>

theorem routing_twice_creates_two_assignments_witness:
  "fst (route_document ascii_lower 1000 1001 ''doc-1'' ''contract'' (7 / 8) [] (3 / 4) 4 ex_db) \<noteq> None \<and>
   (\<exists>res2 db2 a1 a2.
      route_document ascii_lower 2000 2001 ''doc-1'' ''contract'' (7 / 8) [] (3 / 4) 4
        (snd (route_document ascii_lower 1000 1001 ''doc-1'' ''contract'' (7 / 8) [] (3 / 4) 4 ex_db))
        = (Some res2, db2) \<and>
      assignments db2 = assignments ex_db @ [a1, a2] \<and>
      a_doc_id a1 = ''doc-1'' \<and> a_doc_id a2 = ''doc-1'' \<and>
      a_status a1 = ''assigned'' \<and> a_status a2 = ''assigned'' \<and> a_id a1 \<noteq> a_id a2) \<and>
   map (\<lambda>a. (a_id a, a_doc_id a, a_user_id a, a_status a))
     (assignments (snd (route_document ascii_lower 2000 2001 ''doc-1'' ''contract'' (7 / 8) [] (3 / 4) 4
        (snd (route_document ascii_lower 1000 1001 ''doc-1'' ''contract'' (7 / 8) [] (3 / 4) 4 ex_db)))))
     = [(1, ''doc-1'', ''u-alice'', ''assigned''), (2, ''doc-1'', ''u-alice'', ''assigned'')]"
proof -
  have some: "fst (route_document ascii_lower 1000 1001 ''doc-1'' ''contract'' (7 / 8) [] (3 / 4) 4 ex_db)
      \<noteq> None"
    by code_simp
  then obtain res1 where h:
    "route_document ascii_lower 1000 1001 ''doc-1'' ''contract'' (7 / 8) [] (3 / 4) 4 ex_db
       = (Some res1, snd (route_document ascii_lower 1000 1001 ''doc-1'' ''contract'' (7 / 8) [] (3 / 4) 4
                            ex_db))"
    by (cases "route_document ascii_lower 1000 1001 ''doc-1'' ''contract'' (7 / 8) [] (3 / 4) 4 ex_db") auto
  have rows: "map (\<lambda>a. (a_id a, a_doc_id a, a_user_id a, a_status a))
     (assignments (snd (route_document ascii_lower 2000 2001 ''doc-1'' ''contract'' (7 / 8) [] (3 / 4) 4
        (snd (route_document ascii_lower 1000 1001 ''doc-1'' ''contract'' (7 / 8) [] (3 / 4) 4 ex_db)))))
     = [(1, ''doc-1'', ''u-alice'', ''assigned''), (2, ''doc-1'', ''u-alice'', ''assigned'')]"
    by code_simp
  from routing_twice_creates_two_assignments[OF h, where ?now2.0 = 2000
      and ?server_now2.0 = 2001 and ?doc_type2.0 = "''contract''" and ?confidence2.0 = "7 / 8"
      and ?entities2.0 = "[]" and ?risk_score2.0 = "3 / 4" and ?priority2.0 = 4] some rows
  show ?thesis by blast
qed

section \<open>Statistics operation\<close>

text \<open>
  C9. The statistics operation is meant to return the total number of assignments, the
  counts per status, the average completion time in hours and the active assignments of
  every worker, without changing any state. As written it returns nothing: on every
  database, \<open>get_routing_statistics\<close> raises AttributeError when line 313 evaluates
  \<open>db.func\<close> on the Session.
\<close>

theorem get_routing_statistics_raises:
  "get_routing_statistics db = Inl AttributeError"
  by (simp add: get_routing_statistics_def session_getattr_def Let_def)

section \<open>Constraint objects without a recognized key\<close>

text \<open>
  C10. A nested constraint object that carries none of the keys \<open>gt\<close>, \<open>lt\<close>, \<open>gte\<close>,
  \<open>lte\<close>, \<open>contains\<close> (the empty object, for example) is satisfied by every context
  value, whatever its type; hence a condition that maps every field to such an object
  matches every document context.
\<close>

theorem unrecognized_object_satisfied:
  "(no_recognized_key expected \<longrightarrow> check_constraint lower expected v = Inr True) \<and>
   (list_all (\<lambda>(key, expected). no_recognized_key expected) condition \<longrightarrow>
      evaluate_rule_condition lower (PDict condition) ctx)"
  by (simp add: check_constraint_no_recognized_key evaluate_items_no_recognized_key
      evaluate_rule_condition_def except_false_def)

theorem unrecognized_object_satisfied_witness:
  "no_recognized_key (PDict [(''between'', PList [PInt 1, PInt 2])]) \<and>
   list_all (\<lambda>(key, expected). no_recognized_key expected)
     [(''doc_type'', PDict []), (''entities'', PDict [(''between'', PList [PInt 1, PInt 2])])] \<and>
   check_constraint ascii_lower (PDict [(''between'', PList [PInt 1, PInt 2])]) (PStr ''invoice'') = Inr True \<and>
   evaluate_rule_condition ascii_lower
     (PDict [(''doc_type'', PDict []),
             (''entities'', PDict [(''between'', PList [PInt 1, PInt 2])])])
     (document_context ''invoice'' (7 / 8) [] (1 / 8) 3)"
proof -
  have h: "no_recognized_key (PDict [(''between'', PList [PInt 1, PInt 2])]) \<and>
   list_all (\<lambda>(key, expected). no_recognized_key expected)
     [(''doc_type'', PDict []), (''entities'', PDict [(''between'', PList [PInt 1, PInt 2])])]"
    by code_simp
  with unrecognized_object_satisfied[where lower = ascii_lower and expected = "PDict [(''between'', PList [PInt 1, PInt 2])]"
      and v = "PStr ''invoice''"
      and condition = "[(''doc_type'', PDict []),
             (''entities'', PDict [(''between'', PList [PInt 1, PInt 2])])]"
      and ctx = "document_context ''invoice'' (7 / 8) [] (1 / 8) 3"]
  show ?thesis by blast
qed

end
